theory Spec2Isabelle
  imports Complex_Main
begin

section \<open>Exceptions as values\<close>

text \<open>
  Every exception the Python code (or the component the specification describes) can
  raise is a constructor here; a function that may raise returns \<open>error + 'a\<close>, with
  \<open>Inl\<close> for the exception.  \<open>ParserError\<close> stands for \<^verbatim>\<open>parser.error(msg)\<close> of argparse,
  which prints the message and exits the process.
\<close>

datatype error =
    RuntimeError string
  | AssertionError string
  | NotImplementedError string
  | AttributeError string
  | ValueError string
  | ParserError string
  | IndexError
  | ZeroDivisionError
  | ConfigurationError string
  | UnknownSymbolError
  | SequenceTooShortError
  | BatchTooLongError

definition bind_err :: "error + 'a \<Rightarrow> ('a \<Rightarrow> error + 'b) \<Rightarrow> error + 'b" where
  "bind_err m f = (case m of Inl e \<Rightarrow> Inl e | Inr x \<Rightarrow> f x)"

section \<open>Data model\<close>

subsection \<open>Tokenizer adapter and corpus\<close>

text \<open>
  Modelled from the spec: the tokenizer (\<^verbatim>\<open>bionemo.amplify.tokenizer\<close>) and the corpus
  (\<^verbatim>\<open>dataset.HFAmplifyDataset\<close>) are not among the sources; section 4.1 and section 6 of
  the specification give their interface.  \<open>encode\<close> is partial: a symbol outside the
  alphabet has no id.  \<open>pad_token_id\<close> may be absent (Python \<^verbatim>\<open>None\<close>).
\<close>

record BioNeMoAMPLIFYTokenizer =
  encode :: "char \<Rightarrow> int option"
  mask_token_id :: int
  pad_token_id :: "int option"
  amino_acid_token_ids :: "int list"
  all_token_ids :: "int list"

record SequenceRecord =
  sequence :: string
  metadata :: "string option"

type_synonym HFAmplifyDataset = "SequenceRecord list"

datatype RandomMaskStrategy = AMINO_ACIDS_ONLY | ALL_TOKENS

subsection \<open>Masked-residue dataset and multi-epoch resampler (construction)\<close>

text \<open>
  Modelled from the spec: the masked-residue dataset holds its construction parameters
  (section 4.2): the corpus, the base seed, \<^verbatim>\<open>max_seq_length\<close>, the three masking
  probabilities, the random-mask strategy and the tokenizer.
\<close>

record AMPLIFYMaskedResidueDataset =
  hf_dataset :: HFAmplifyDataset
  seed :: int
  max_seq_length :: int
  mask_prob :: real
  mask_token_prob :: real
  mask_random_prob :: real
  random_mask_strategy :: RandomMaskStrategy
  tokenizer :: BioNeMoAMPLIFYTokenizer

text \<open>
  Modelled from the spec: the constructor of \<^verbatim>\<open>dataset.AMPLIFYMaskedResidueDataset\<close> is not
  among the sources.  Section 4.2 lists its parameters and requires
  \<^verbatim>\<open>mask_token_prob + mask_random_prob <= 1\<close>; section 7 makes a violation a
  ConfigurationError raised at setup time.
\<close>

definition AMPLIFYMaskedResidueDataset_init ::
  "HFAmplifyDataset \<Rightarrow> int \<Rightarrow> int \<Rightarrow> real \<Rightarrow> real \<Rightarrow> real \<Rightarrow> RandomMaskStrategy
     \<Rightarrow> BioNeMoAMPLIFYTokenizer \<Rightarrow> error + AMPLIFYMaskedResidueDataset" where
  "AMPLIFYMaskedResidueDataset_init hf sd maxlen mp mtp mrp strat tok =
     (if mtp + mrp > 1 then Inl (ConfigurationError ''mask_token_prob + mask_random_prob > 1'')
      else Inr \<lparr>hf_dataset = hf, seed = sd, max_seq_length = maxlen, mask_prob = mp,
                mask_token_prob = mtp, mask_random_prob = mrp, random_mask_strategy = strat,
                tokenizer = tok\<rparr>)"

text \<open>Modelled from the spec: the corpus interface \<^verbatim>\<open>length()\<close> of section 6.\<close>

definition dataset_len :: "AMPLIFYMaskedResidueDataset \<Rightarrow> int" where
  "dataset_len ds = int (length (hf_dataset ds))"

text \<open>
  Modelled from the spec: \<^verbatim>\<open>bionemo.core.data.multi_epoch_dataset\<close> is not among the sources.
  Section 4.3 describes a wrapper of a finite dataset with a requested logical length
  \<^verbatim>\<open>num_samples\<close>, a \<^verbatim>\<open>shuffle\<close> flag and a seed.
\<close>

record MultiEpochDatasetResampler =
  dataset :: AMPLIFYMaskedResidueDataset
  num_samples :: int
  shuffle :: bool
  resampler_seed :: int

text \<open>
  Modelled from the spec: the constructor of the resampler; section 4.3 names no
  construction failure, and \<^verbatim>\<open>num_samples\<close> may exceed, equal or be less than the length
  of the wrapped dataset.
\<close>

definition MultiEpochDatasetResampler_init ::
  "AMPLIFYMaskedResidueDataset \<Rightarrow> int \<Rightarrow> bool \<Rightarrow> int \<Rightarrow> MultiEpochDatasetResampler" where
  "MultiEpochDatasetResampler_init ds n sh sd =
     \<lparr>dataset = ds, num_samples = n, shuffle = sh, resampler_seed = sd\<rparr>"

text \<open>
  Modelled from the spec: the resampler presents a dataset of the requested logical
  length \<^verbatim>\<open>num_samples\<close> (section 4.3).
\<close>

definition resampler_len :: "MultiEpochDatasetResampler \<Rightarrow> int" where
  "resampler_len r = num_samples r"

subsection \<open>Trainer and sampler handles\<close>

text \<open>
  \<^verbatim>\<open>trainer.limit_val_batches\<close> is an int, a float or \<^verbatim>\<open>None\<close>.  Only the attributes of the
  trainer that \<^verbatim>\<open>AMPLIFYDataModule\<close> reads are kept.
\<close>

datatype limit_batches = LimitNone | LimitInt int | LimitFloat real

record Trainer =
  max_epochs :: "int option"
  max_steps :: int
  limit_val_batches :: limit_batches

datatype dataloader_type = single | cyclic

record MegatronDataSampler =
  seq_len :: int
  micro_batch_size :: int
  global_batch_size :: int
  sampler_dataloader_type :: dataloader_type
  rampup_batch_size :: "int list option"

subsection \<open>The data module\<close>

text \<open>
  The attributes of \<^verbatim>\<open>AMPLIFYDataModule\<close>.  The private attribute \<^verbatim>\<open>self._x\<close> of the source is
  the field \<open>dm_x\<close>.  \<open>trainer = None\<close> covers both a missing attribute and the value
  \<^verbatim>\<open>None\<close>; \<open>dm_train_ds\<close> and \<open>dm_valid_ds\<close> are \<open>None\<close> until \<^verbatim>\<open>setup\<close> assigns them.
  \<open>init_global_step\<close> is the attribute that the inherited \<^verbatim>\<open>update_init_global_step\<close>
  maintains.
\<close>

record AMPLIFYDataModule =
  dm_train_hf_dataset :: HFAmplifyDataset
  dm_valid_hf_dataset :: HFAmplifyDataset
  dm_seed :: int
  dm_min_seq_length :: "int option"
  dm_max_seq_length :: int
  dm_mask_prob :: real
  dm_mask_token_prob :: real
  dm_mask_random_prob :: real
  dm_random_mask_strategy :: RandomMaskStrategy
  dm_tokenizer :: BioNeMoAMPLIFYTokenizer
  dm_micro_batch_size :: int
  dm_num_workers :: int
  dm_persistent_workers :: bool
  dm_pin_memory :: bool
  data_sampler :: MegatronDataSampler
  trainer :: "Trainer option"
  dm_train_ds :: "MultiEpochDatasetResampler option"
  dm_valid_ds :: "MultiEpochDatasetResampler option"
  init_global_step :: int

text \<open>
  \<^verbatim>\<open>AMPLIFYDataModule.__init__\<close>: stores its arguments and builds the sampler.  It has no
  check and no \<^verbatim>\<open>raise\<close>, so the result is always \<open>Inr\<close>; the sum type only makes
  that visible.
\<close>

definition AMPLIFYDataModule_init ::
  "HFAmplifyDataset \<Rightarrow> HFAmplifyDataset \<Rightarrow> int \<Rightarrow> int option \<Rightarrow> int \<Rightarrow> int \<Rightarrow> int \<Rightarrow> int
     \<Rightarrow> bool \<Rightarrow> bool \<Rightarrow> int list option \<Rightarrow> real \<Rightarrow> real \<Rightarrow> real \<Rightarrow> RandomMaskStrategy
     \<Rightarrow> BioNeMoAMPLIFYTokenizer \<Rightarrow> dataloader_type \<Rightarrow> error + AMPLIFYDataModule" where
  "AMPLIFYDataModule_init train_hf valid_hf sd min_len max_len mbs gbs workers persistent pin
       rampup mp mtp mrp strat tok dl_type =
     Inr \<lparr>dm_train_hf_dataset = train_hf, dm_valid_hf_dataset = valid_hf, dm_seed = sd,
          dm_min_seq_length = min_len, dm_max_seq_length = max_len, dm_mask_prob = mp,
          dm_mask_token_prob = mtp, dm_mask_random_prob = mrp,
          dm_random_mask_strategy = strat, dm_tokenizer = tok,
          dm_micro_batch_size = mbs, dm_num_workers = workers,
          dm_persistent_workers = persistent, dm_pin_memory = pin,
          data_sampler = \<lparr>seq_len = max_len, micro_batch_size = mbs, global_batch_size = gbs,
                           sampler_dataloader_type = dl_type, rampup_batch_size = rampup\<rparr>,
          trainer = None, dm_train_ds = None, dm_valid_ds = None, init_global_step = 0\<rparr>"

section \<open>\<^verbatim>\<open>AMPLIFYDataModule.setup\<close>\<close>

text \<open>
  The outcome of a method that mutates \<^verbatim>\<open>self\<close>: the exception raised (if any), the object
  as the method leaves it, and the warnings logged.  An exception keeps the assignments
  made before it.

  \<^verbatim>\<open>infer_num_samples\<close> (\<^verbatim>\<open>bionemo.llm.utils.datamodule_utils\<close>) is not among the sources: it
  is the parameter \<open>infer\<close>, called with \<^verbatim>\<open>limit_batches\<close>, \<^verbatim>\<open>num_samples_in_dataset\<close>,
  \<^verbatim>\<open>global_batch_size\<close> and \<^verbatim>\<open>stage\<close>, and it may raise.
\<close>

type_synonym infer_num_samples = "limit_batches \<Rightarrow> int \<Rightarrow> int \<Rightarrow> string \<Rightarrow> error + int"

definition max_epochs_warning :: string where
  "max_epochs_warning =
     ''Trainer is set to run for multiple epochs. This is not recommended due to the same shuffle being used in each. Instead set max_epochs to 1 and increase the number of max_steps.''"

definition make_dataset :: "AMPLIFYDataModule \<Rightarrow> HFAmplifyDataset \<Rightarrow> error + AMPLIFYMaskedResidueDataset" where
  "make_dataset dm hf =
     AMPLIFYMaskedResidueDataset_init hf (dm_seed dm) (dm_max_seq_length dm) (dm_mask_prob dm)
       (dm_mask_token_prob dm) (dm_mask_random_prob dm) (dm_random_mask_strategy dm)
       (dm_tokenizer dm)"

definition AMPLIFYDataModule_setup ::
  "infer_num_samples \<Rightarrow> AMPLIFYDataModule \<Rightarrow> error option \<times> AMPLIFYDataModule \<times> string list" where
  "AMPLIFYDataModule_setup infer dm =
     (case trainer dm of
        None \<Rightarrow>
          (Some (RuntimeError ''Setup should be completed when trainer and config are attached.''),
           dm, [])
      | Some t \<Rightarrow>
          (let warnings = (case max_epochs t of
                             None \<Rightarrow> []
                           | Some e \<Rightarrow> if e > 1 then [max_epochs_warning] else []);
               max_train_steps = max_steps t
           in if max_train_steps \<le> 0
              then (Some (RuntimeError ''Please specify trainer.max_steps''), dm, warnings)
              else
                (let num_train_samples = max_train_steps * global_batch_size (data_sampler dm)
                 in case make_dataset dm (dm_train_hf_dataset dm) of
                      Inl e \<Rightarrow> (Some e, dm, warnings)
                    | Inr train_ds \<Rightarrow>
                        (let dm1 = dm\<lparr>dm_train_ds := Some (MultiEpochDatasetResampler_init
                                         train_ds num_train_samples True (dm_seed dm))\<rparr>
                         in case make_dataset dm1 (dm_valid_hf_dataset dm1) of
                              Inl e \<Rightarrow> (Some e, dm1, warnings)
                            | Inr valid_ds \<Rightarrow>
                                (case infer (limit_val_batches t) (dataset_len valid_ds)
                                        (global_batch_size (data_sampler dm1)) ''val'' of
                                   Inl e \<Rightarrow> (Some e, dm1, warnings)
                                 | Inr num_val_samples \<Rightarrow>
                                     (None,
                                      dm1\<lparr>dm_valid_ds := Some (MultiEpochDatasetResampler_init
                                             valid_ds num_val_samples False (dm_seed dm1))\<rparr>,
                                      warnings))))))"

section \<open>Data loaders\<close>

datatype Mode = train | validation | test

text \<open>
  \<^verbatim>\<open>WrappedDataLoader\<close> belongs to an external library; the record keeps the arguments
  it is built from.  The three \<open>collate_\<close> fields are the arguments that
  \<^verbatim>\<open>functools.partial\<close> binds to \<^verbatim>\<open>collate.bert_padding_collate_fn\<close>.
\<close>

record WrappedDataLoader =
  loader_mode :: Mode
  loader_dataset :: MultiEpochDatasetResampler
  loader_num_workers :: int
  loader_pin_memory :: bool
  loader_persistent_workers :: bool
  collate_padding_value :: int
  collate_min_length :: "int option"
  collate_max_length :: int

text \<open>
  \<^verbatim>\<open>update_init_global_step\<close> is inherited from \<^verbatim>\<open>MegatronDataModule\<close>, which is not among
  the sources: the parameter \<open>upd\<close> gives the new value of \<open>init_global_step\<close>, or the
  exception it raises.
\<close>

type_synonym update_init_global_step = "AMPLIFYDataModule \<Rightarrow> error + int"

definition create_dataloader ::
  "update_init_global_step \<Rightarrow> AMPLIFYDataModule \<Rightarrow> MultiEpochDatasetResampler \<Rightarrow> Mode
     \<Rightarrow> (error + WrappedDataLoader) \<times> AMPLIFYDataModule" where
  "create_dataloader upd dm ds mode =
     (case upd dm of
        Inl e \<Rightarrow> (Inl e, dm)
      | Inr step \<Rightarrow>
          (let dm1 = dm\<lparr>init_global_step := step\<rparr>
           in case pad_token_id (dm_tokenizer dm1) of
                None \<Rightarrow> (Inl (AssertionError ''Tokenizer must have a pad token id.''), dm1)
              | Some pad \<Rightarrow>
                  (Inr \<lparr>loader_mode = mode, loader_dataset = ds,
                        loader_num_workers = dm_num_workers dm1,
                        loader_pin_memory = dm_pin_memory dm1,
                        loader_persistent_workers = dm_persistent_workers dm1,
                        collate_padding_value = pad,
                        collate_min_length = dm_min_seq_length dm1,
                        collate_max_length = dm_max_seq_length dm1\<rparr>, dm1)))"

text \<open>
  \<^verbatim>\<open>self._train_ds\<close> is read before \<^verbatim>\<open>_create_dataloader\<close> is entered; before \<^verbatim>\<open>setup\<close> the
  attribute does not exist.
\<close>

definition train_dataloader ::
  "update_init_global_step \<Rightarrow> AMPLIFYDataModule \<Rightarrow> (error + WrappedDataLoader) \<times> AMPLIFYDataModule" where
  "train_dataloader upd dm =
     (case dm_train_ds dm of
        None \<Rightarrow> (Inl (AttributeError ''_train_ds''), dm)
      | Some ds \<Rightarrow> create_dataloader upd dm ds train)"

definition val_dataloader ::
  "update_init_global_step \<Rightarrow> AMPLIFYDataModule \<Rightarrow> (error + WrappedDataLoader) \<times> AMPLIFYDataModule" where
  "val_dataloader upd dm =
     (case dm_valid_ds dm of
        None \<Rightarrow> (Inl (AttributeError ''_valid_ds''), dm)
      | Some ds \<Rightarrow> create_dataloader upd dm ds validation)"

definition test_dataloader ::
  "AMPLIFYDataModule \<Rightarrow> (error + WrappedDataLoader) \<times> AMPLIFYDataModule" where
  "test_dataloader dm = (Inl (NotImplementedError ''No test dataset provided for AMPLIFY''), dm)"

section \<open>Collation\<close>

text \<open>
  Modelled from the spec: \<^verbatim>\<open>bionemo.llm.data.collate\<close> is not among the sources.  The data
  model is section 3 of the specification (MaskedExample, Batch), the algorithm is
  section 4.4: the target length, the defensive length check, right-padding of
  \<^verbatim>\<open>input_ids\<close> with the padding value and of \<^verbatim>\<open>labels\<close> with the ignore sentinel, and a
  mask of the valid positions.  The specification fixes no value for the ignore
  sentinel; nothing below depends on the value chosen.  \<^verbatim>\<open>max\<close> of an empty batch
  raises ValueError, as in Python.
\<close>

record MaskedExample =
  input_ids :: "int list"
  labels :: "int list"

record Batch =
  batch_input_ids :: "int list list"
  batch_labels :: "int list list"
  batch_mask :: "bool list list"

text \<open>
  Modelled from the spec: the ignore sentinel of section 3, the length \<^verbatim>\<open>len(ex)\<close> of an
  example, and right-padding of one row up to a length.
\<close>

definition ignore_sentinel :: int where
  "ignore_sentinel = - 100"

definition example_len :: "MaskedExample \<Rightarrow> nat" where
  "example_len ex = length (input_ids ex)"

definition pad_to :: "nat \<Rightarrow> 'a \<Rightarrow> 'a list \<Rightarrow> 'a list" where
  "pad_to L v xs = xs @ replicate (L - length xs) v"

text \<open>
  Modelled from the spec: step 1 of section 4.4,
  \<^verbatim>\<open>L = max(min_seq_length or 0, max(len(ex) for ex in batch))\<close>.
\<close>

definition target_length :: "int option \<Rightarrow> MaskedExample list \<Rightarrow> int" where
  "target_length min_length batch =
     max (case min_length of None \<Rightarrow> 0 | Some m \<Rightarrow> m)
         (Max (set (map (\<lambda>ex. int (example_len ex)) batch)))"

text \<open>
  Modelled from the spec: steps 1 to 3 of section 4.4.  The length check is against
  \<^verbatim>\<open>max_seq_length\<close>; the rows keep the order of the input.
\<close>

definition bert_padding_collate_fn ::
  "MaskedExample list \<Rightarrow> int \<Rightarrow> int option \<Rightarrow> int \<Rightarrow> error + Batch" where
  "bert_padding_collate_fn batch padding_value min_length max_length =
     (if batch = [] then Inl (ValueError ''max() arg is an empty sequence'')
      else
        (let L = nat (target_length min_length batch)
         in if list_ex (\<lambda>ex. int (example_len ex) > max_length) batch
            then Inl BatchTooLongError
            else Inr \<lparr>batch_input_ids = map (\<lambda>ex. pad_to L padding_value (input_ids ex)) batch,
                      batch_labels = map (\<lambda>ex. pad_to L ignore_sentinel (labels ex)) batch,
                      batch_mask =
                        map (\<lambda>ex. pad_to L False (replicate (example_len ex) True)) batch\<rparr>))"

text \<open>
  The \<^verbatim>\<open>collate_fn\<close> of a loader built by \<^verbatim>\<open>_create_dataloader\<close>: the partial application
  of \<^verbatim>\<open>bert_padding_collate_fn\<close> to the three bound arguments.
\<close>

definition collate_fn :: "WrappedDataLoader \<Rightarrow> MaskedExample list \<Rightarrow> error + Batch" where
  "collate_fn loader batch =
     bert_padding_collate_fn batch (collate_padding_value loader) (collate_min_length loader)
       (collate_max_length loader)"

section \<open>Masked-residue dataset\<close>

text \<open>
  Modelled from the spec: \<^verbatim>\<open>bionemo.amplify.dataset\<close> is not among the sources; this is the
  algorithm of section 4.2, step by step.  The random generator is a parameter: section 9
  asks for a pure \<^verbatim>\<open>derive_rng(seed, index)\<close>, and a generator is used by explicit state
  passing (\<open>random\<close> draws a number in [0, 1), \<open>choice\<close> draws one element of a pool;
  each returns the next generator state).
\<close>

record 'g RandomGenerator =
  derive_rng :: "int \<Rightarrow> nat \<Rightarrow> 'g"
  random :: "'g \<Rightarrow> real \<times> 'g"
  choice :: "'g \<Rightarrow> int list \<Rightarrow> int \<times> 'g"

text \<open>
  Modelled from the spec: reading the corpus by index (\<^verbatim>\<open>get_record\<close>, section 6) and
  \<^verbatim>\<open>encode\<close> symbol by symbol (section 4.1).  An index outside the list is an IndexError;
  a symbol outside the alphabet is an UnknownSymbolError.
\<close>

definition list_get :: "'a list \<Rightarrow> nat \<Rightarrow> error + 'a" where
  "list_get xs i = (if i < length xs then Inr (xs ! i) else Inl IndexError)"

fun encode_all :: "BioNeMoAMPLIFYTokenizer \<Rightarrow> string \<Rightarrow> error + int list" where
  "encode_all tok [] = Inr []"
| "encode_all tok (c # cs) =
     (case encode tok c of
        None \<Rightarrow> Inl UnknownSymbolError
      | Some t \<Rightarrow> (case encode_all tok cs of Inl e \<Rightarrow> Inl e | Inr ts \<Rightarrow> Inr (t # ts)))"

text \<open>
  Modelled from the spec: step 2 of section 4.2 and its failure clause.  The raw sequence
  is fetched and truncated to \<^verbatim>\<open>max_seq_length\<close> if longer; an empty truncated sequence is a
  SequenceTooShortError; the rest is tokenized.
\<close>

definition original_tokens :: "AMPLIFYMaskedResidueDataset \<Rightarrow> nat \<Rightarrow> error + int list" where
  "original_tokens ds i =
     bind_err (list_get (hf_dataset ds) i) (\<lambda>entry.
       let raw = sequence entry;
           truncated = (if int (length raw) > max_seq_length ds
                        then take (nat (max_seq_length ds)) raw else raw)
       in if truncated = [] then Inl SequenceTooShortError
          else encode_all (tokenizer ds) truncated)"

text \<open>
  Modelled from the spec: step 3 of section 4.2, one Bernoulli(\<^verbatim>\<open>mask_prob\<close>) draw for each
  position, and the pool of step 4 that \<^verbatim>\<open>random_mask_strategy\<close> selects.
\<close>

fun draw_selection :: "'g RandomGenerator \<Rightarrow> real \<Rightarrow> nat \<Rightarrow> 'g \<Rightarrow> bool list \<times> 'g" where
  "draw_selection ops p 0 g = ([], g)"
| "draw_selection ops p (Suc n) g =
     (let (u, g1) = random ops g;
          (bs, g2) = draw_selection ops p n g1
      in ((u < p) # bs, g2))"

definition replacement_pool :: "AMPLIFYMaskedResidueDataset \<Rightarrow> int list" where
  "replacement_pool ds =
     (case random_mask_strategy ds of
        AMINO_ACIDS_ONLY \<Rightarrow> amino_acid_token_ids (tokenizer ds)
      | ALL_TOKENS \<Rightarrow> all_token_ids (tokenizer ds))"

text \<open>
  Modelled from the spec: steps 4 and 6 of section 4.2.  For each selected position a
  three-way decision by \<^verbatim>\<open>mask_token_prob\<close>, \<^verbatim>\<open>mask_random_prob\<close> and the remainder: the mask
  token, a random token of the pool, or the token unchanged.  The other positions keep
  the original token.
\<close>

fun apply_decisions ::
  "'g RandomGenerator \<Rightarrow> AMPLIFYMaskedResidueDataset \<Rightarrow> int list \<Rightarrow> bool list \<Rightarrow> 'g \<Rightarrow> int list" where
  "apply_decisions ops ds [] bs g = []"
| "apply_decisions ops ds (t # ts) [] g = t # ts"
| "apply_decisions ops ds (t # ts) (b # bs) g =
     (if b then
        (let (c, g1) = random ops g
         in if c < mask_token_prob ds
            then mask_token_id (tokenizer ds) # apply_decisions ops ds ts bs g1
            else if c < mask_token_prob ds + mask_random_prob ds
            then (let (r, g2) = choice ops g1 (replacement_pool ds)
                  in r # apply_decisions ops ds ts bs g2)
            else t # apply_decisions ops ds ts bs g1)
      else t # apply_decisions ops ds ts bs g)"

text \<open>
  Modelled from the spec: step 5 of section 4.2, the original token at a selected
  position and the sentinel elsewhere; \<open>selection\<close> is the outcome of step 3 alone.
\<close>

definition build_labels :: "int list \<Rightarrow> bool list \<Rightarrow> int list" where
  "build_labels toks sel = map2 (\<lambda>t b. if b then t else ignore_sentinel) toks sel"

definition selection ::
  "'g RandomGenerator \<Rightarrow> AMPLIFYMaskedResidueDataset \<Rightarrow> int list \<Rightarrow> 'g \<Rightarrow> bool list" where
  "selection ops ds toks g = fst (draw_selection ops (mask_prob ds) (length toks) g)"

text \<open>
  Modelled from the spec: steps 3 to 6 on a tokenized sequence under a given generator,
  and the dataset's lookup at a sample index, which derives the generator from
  \<open>(seed, i)\<close> (step 1).
\<close>

definition mask_example ::
  "'g RandomGenerator \<Rightarrow> AMPLIFYMaskedResidueDataset \<Rightarrow> int list \<Rightarrow> 'g \<Rightarrow> MaskedExample" where
  "mask_example ops ds toks g =
     (let (sel, g1) = draw_selection ops (mask_prob ds) (length toks) g
      in \<lparr>input_ids = apply_decisions ops ds toks sel g1, labels = build_labels toks sel\<rparr>)"

definition getitem ::
  "'g RandomGenerator \<Rightarrow> AMPLIFYMaskedResidueDataset \<Rightarrow> nat \<Rightarrow> error + MaskedExample" where
  "getitem ops ds i =
     (let g = derive_rng ops (seed ds) i
      in bind_err (original_tokens ds i) (\<lambda>toks. Inr (mask_example ops ds toks g)))"

subsection \<open>The dataset inside a worker process\<close>

text \<open>
  Modelled from the spec: the process in which the dataset is called (section 5: several
  independent worker processes, each called per index, in no prescribed order).  A
  process has an identity and holds random generators as mutable objects: \<open>generators\<close>
  maps a handle to the current state of the generator behind it, \<open>next_handle\<close> is the
  handle the next generator created in the process receives, so it grows with every
  call made before.  Generators created earlier, and any process-wide generator, live
  in the same store.
\<close>

record 'g process =
  worker_id :: nat
  generators :: "nat \<Rightarrow> 'g"
  next_handle :: nat

text \<open>
  Modelled from the spec: step 1 of section 4.2 and section 9 in a process.  Deriving the
  per-sample generator creates a new generator object seeded from \<open>(seed, i)\<close>; a draw
  reads the state of the generator behind a handle and writes the next state back.
\<close>

definition new_generator ::
  "'g RandomGenerator \<Rightarrow> int \<Rightarrow> nat \<Rightarrow> 'g process \<Rightarrow> nat \<times> 'g process" where
  "new_generator ops sd i p =
     (next_handle p,
      p\<lparr>generators := (generators p)(next_handle p := derive_rng ops sd i),
        next_handle := Suc (next_handle p)\<rparr>)"

text \<open>
  Modelled from the spec: a draw advances the generator it is made on; in the process
  that is writing the next state of the generator back behind its handle.
\<close>

definition set_generator :: "nat \<Rightarrow> 'g \<Rightarrow> 'g process \<Rightarrow> 'g process" where
  "set_generator h g p = p\<lparr>generators := (generators p)(h := g)\<rparr>"

definition rng_random :: "'g RandomGenerator \<Rightarrow> nat \<Rightarrow> 'g process \<Rightarrow> real \<times> 'g process" where
  "rng_random ops h p =
     (let (u, g') = random ops (generators p h)
      in (u, set_generator h g' p))"

definition rng_choice ::
  "'g RandomGenerator \<Rightarrow> nat \<Rightarrow> int list \<Rightarrow> 'g process \<Rightarrow> int \<times> 'g process" where
  "rng_choice ops h pool p =
     (let (r, g') = choice ops (generators p h) pool
      in (r, set_generator h g' p))"

text \<open>
  Modelled from the spec: steps 3, 4 and 6 of section 4.2 as they run in a process, every
  draw going through the generator object behind the handle \<open>h\<close>.
\<close>

fun draw_selection_in ::
  "'g RandomGenerator \<Rightarrow> real \<Rightarrow> nat \<Rightarrow> nat \<Rightarrow> 'g process \<Rightarrow> bool list \<times> 'g process" where
  "draw_selection_in ops pr 0 h p = ([], p)"
| "draw_selection_in ops pr (Suc n) h p =
     (let (u, p1) = rng_random ops h p;
          (bs, p2) = draw_selection_in ops pr n h p1
      in ((u < pr) # bs, p2))"

fun apply_decisions_in ::
  "'g RandomGenerator \<Rightarrow> AMPLIFYMaskedResidueDataset \<Rightarrow> int list \<Rightarrow> bool list \<Rightarrow> nat
     \<Rightarrow> 'g process \<Rightarrow> int list \<times> 'g process" where
  "apply_decisions_in ops ds [] bs h p = ([], p)"
| "apply_decisions_in ops ds (t # ts) [] h p = (t # ts, p)"
| "apply_decisions_in ops ds (t # ts) (b # bs) h p =
     (if b then
        (let (c, p1) = rng_random ops h p
         in if c < mask_token_prob ds
            then (let (rest, p2) = apply_decisions_in ops ds ts bs h p1
                  in (mask_token_id (tokenizer ds) # rest, p2))
            else if c < mask_token_prob ds + mask_random_prob ds
            then (let (r, p2) = rng_choice ops h (replacement_pool ds) p1;
                      (rest, p3) = apply_decisions_in ops ds ts bs h p2
                  in (r # rest, p3))
            else (let (rest, p2) = apply_decisions_in ops ds ts bs h p1
                  in (t # rest, p2)))
      else (let (rest, p1) = apply_decisions_in ops ds ts bs h p
            in (t # rest, p1)))"

text \<open>
  Modelled from the spec: the dataset's lookup at a sample index as one call in a
  process (steps 1 to 6 of section 4.2), and a worker that makes the calls for the
  indices it is handed, one after the other, each call starting in the process state
  the previous one left.
\<close>

definition getitem_in ::
  "'g RandomGenerator \<Rightarrow> AMPLIFYMaskedResidueDataset \<Rightarrow> nat \<Rightarrow> 'g process
     \<Rightarrow> (error + MaskedExample) \<times> 'g process" where
  "getitem_in ops ds i p =
     (let (h, p1) = new_generator ops (seed ds) i p
      in case original_tokens ds i of
           Inl e \<Rightarrow> (Inl e, p1)
         | Inr toks \<Rightarrow>
             (let (sel, p2) = draw_selection_in ops (mask_prob ds) (length toks) h p1;
                  (ids, p3) = apply_decisions_in ops ds toks sel h p2
              in (Inr \<lparr>input_ids = ids, labels = build_labels toks sel\<rparr>, p3)))"

fun worker ::
  "'g RandomGenerator \<Rightarrow> AMPLIFYMaskedResidueDataset \<Rightarrow> nat list \<Rightarrow> 'g process
     \<Rightarrow> (error + MaskedExample) list \<times> 'g process" where
  "worker ops ds [] p = ([], p)"
| "worker ops ds (i # indices) p =
     (let (r, p1) = getitem_in ops ds i p;
          (rs, p2) = worker ops ds indices p1
      in (r # rs, p2))"

section \<open>Multi-epoch resampler\<close>

text \<open>
  Modelled from the spec: the contract of \<^verbatim>\<open>get(position)\<close> in section 4.3.  The per-epoch
  permutation is a parameter \<open>perm\<close>, a function of the seed, the epoch and the epoch
  length.  A position outside \<^verbatim>\<open>[0, num_samples)\<close> is an IndexError, an empty wrapped
  dataset makes \<^verbatim>\<open>//\<close> divide by zero, and a lookup beyond the permutation is an
  IndexError, as the Python operations would.
\<close>

type_synonym epoch_permutation = "int \<Rightarrow> int \<Rightarrow> nat \<Rightarrow> nat list"

definition underlying_index ::
  "epoch_permutation \<Rightarrow> MultiEpochDatasetResampler \<Rightarrow> int \<Rightarrow> error + nat" where
  "underlying_index perm r position =
     (if position < 0 \<or> num_samples r \<le> position then Inl IndexError
      else
        (let epoch_length = dataset_len (dataset r)
         in if epoch_length = 0 then Inl ZeroDivisionError
            else
              (let epoch = position div epoch_length;
                   offset = position mod epoch_length;
                   permutation = (if shuffle r
                                  then perm (resampler_seed r) epoch (nat epoch_length)
                                  else [0..<nat epoch_length])
               in list_get permutation (nat offset))))"

text \<open>
  Modelled from the spec: \<^verbatim>\<open>get(position)\<close> delegates to the wrapped dataset at the index
  found.
\<close>

definition resampler_get ::
  "'g RandomGenerator \<Rightarrow> epoch_permutation \<Rightarrow> MultiEpochDatasetResampler \<Rightarrow> int
     \<Rightarrow> error + MaskedExample" where
  "resampler_get ops perm r position =
     bind_err (underlying_index perm r position) (getitem ops (dataset r))"

section \<open>The fine-tuning entrypoint\<close>

text \<open>
  The values an argparse namespace of this script holds, and the namespace itself: a map
  from attribute names to values.  Reading an attribute the namespace does not have
  raises AttributeError.  A class object is identified by its name (\<^verbatim>\<open>is\<close> compares
  identity).
\<close>

datatype pyval =
    PyNone
  | PyBool bool
  | PyInt int
  | PyFloat real
  | PyStr string
  | PyPath string
  | PyList "pyval list"
  | PyClass string

type_synonym namespace = "string \<Rightarrow> pyval option"

definition getattr :: "namespace \<Rightarrow> string \<Rightarrow> error + pyval" where
  "getattr ns name = (case ns name of None \<Rightarrow> Inl (AttributeError name) | Some v \<Rightarrow> Inr v)"

fun truthy :: "pyval \<Rightarrow> bool" where
  "truthy PyNone = False"
| "truthy (PyBool b) = b"
| "truthy (PyInt i) = (i \<noteq> 0)"
| "truthy (PyFloat x) = (x \<noteq> 0)"
| "truthy (PyStr s) = (s \<noteq> [])"
| "truthy (PyPath s) = True"
| "truthy (PyList xs) = (xs \<noteq> [])"
| "truthy (PyClass c) = True"

text \<open>
  \<^verbatim>\<open>get_parser\<close>: the option string and the default of every \<^verbatim>\<open>add_argument\<close> call, in the
  order of the source (an option without a default has the default \<^verbatim>\<open>None\<close>).  argparse
  names the attribute of an option by dropping the leading dashes and replacing each
  remaining dash by an underscore.
\<close>

definition get_parser :: "(string \<times> pyval) list" where
  "get_parser =
     [(''--train-data-path'', PyNone),
      (''--valid-data-path'', PyNone),
      (''--precision'', PyStr ''bf16-mixed''),
      (''--task-type'', PyStr ''regression''),
      (''--label-column'', PyStr ''labels''),
      (''--encoder-frozen'', PyBool False),
      (''--lr'', PyFloat 0.0004),
      (''--scale-lr-layer'', PyNone),
      (''--lr-multiplier'', PyFloat 1),
      (''--mlp-ft-dropout'', PyFloat 0.25),
      (''--mlp-hidden-size'', PyInt 256),
      (''--mlp-target-size'', PyInt 1),
      (''--cnn-dropout'', PyFloat 0.25),
      (''--cnn-hidden-size'', PyInt 32),
      (''--cnn-num-classes'', PyInt 3),
      (''--create-tensorboard-logger'', PyBool False),
      (''--resume-if-exists'', PyBool False),
      (''--result-dir'', PyPath ''./results''),
      (''--experiment-name'', PyStr ''esm2''),
      (''--wandb-entity'', PyNone),
      (''--wandb-project'', PyNone),
      (''--wandb-tags'', PyNone),
      (''--wandb-group'', PyNone),
      (''--wandb-id'', PyNone),
      (''--wandb-anonymous'', PyBool False),
      (''--wandb-log-model'', PyBool False),
      (''--wandb-offline'', PyBool False),
      (''--num-gpus'', PyInt 1),
      (''--num-nodes'', PyInt 1),
      (''--num-steps'', PyInt 500000),
      (''--num-dataset-workers'', PyInt 1),
      (''--val-check-interval'', PyInt 10000),
      (''--log-every-n-steps'', PyNone),
      (''--min-seq-length'', PyNone),
      (''--max-seq-length'', PyInt 1024),
      (''--limit-val-batches'', PyInt 2),
      (''--micro-batch-size'', PyInt 64),
      (''--pipeline-model-parallel-size'', PyInt 1),
      (''--tensor-model-parallel-size'', PyInt 1),
      (''--accumulate-grad-batches'', PyInt 1),
      (''--save-last-checkpoint'', PyBool True),
      (''--metric-to-monitor-for-checkpoints'', PyStr ''val_loss''),
      (''--save-top-k'', PyInt 2),
      (''--restore-from-checkpoint-path'', PyNone),
      (''--lora-finetune'', PyBool False),
      (''--lora-checkpoint-path'', PyNone),
      (''--nsys-profiling'', PyBool False),
      (''--nsys-start-step'', PyInt 0),
      (''--nsys-end-step'', PyNone),
      (''--nsys-ranks'', PyList [PyInt 0]),
      (''--overlap-grad-reduce'', PyBool False),
      (''--no-overlap-param-gather'', PyBool False),
      (''--no-average-in-collective'', PyBool False),
      (''--grad-reduce-in-fp32'', PyBool False),
      (''--avoid-ckpt-async-save'', PyBool False),
      (''--clip-grad'', PyFloat 1),
      (''--config-class'', PyClass ''ESM2FineTuneSeqConfig''),
      (''--dataset-class'', PyClass ''InMemorySingleValueDataset''),
      (''--seed'', PyInt 43)]"

definition dest :: "string \<Rightarrow> string" where
  "dest option_string = map (\<lambda>c. if c = CHR ''-'' then CHR ''_'' else c) (drop 2 option_string)"

text \<open>
  What \<^verbatim>\<open>parser.parse_args()\<close> returns when it returns: a namespace with exactly one
  attribute for each option of the parser.  \<open>default_namespace\<close> is the one in which every
  option has its default.
\<close>

definition parsed_namespace :: "namespace \<Rightarrow> bool" where
  "parsed_namespace ns \<longleftrightarrow> dom ns = set (map (\<lambda>(opt, d). dest opt) get_parser)"

definition default_namespace :: namespace where
  "default_namespace = map_of (map (\<lambda>(opt, d). (dest opt, d)) get_parser)"

text \<open>
  The keyword arguments of the call of \<^verbatim>\<open>train_model\<close>: the keyword, the attribute of
  \<^verbatim>\<open>args\<close> it is read from, and whether the value is negated (\<^verbatim>\<open>not args.x\<close>).
\<close>

definition train_model_kwargs :: "(string \<times> string \<times> bool) list" where
  "train_model_kwargs =
     [(''train_data_path'', ''train_data_path'', False),
      (''valid_data_path'', ''valid_data_path'', False),
      (''num_nodes'', ''num_nodes'', False),
      (''devices'', ''num_gpus'', False),
      (''min_seq_length'', ''min_seq_length'', False),
      (''max_seq_length'', ''max_seq_length'', False),
      (''result_dir'', ''result_dir'', False),
      (''wandb_entity'', ''wandb_entity'', False),
      (''wandb_project'', ''wandb_project'', False),
      (''wandb_tags'', ''wandb_tags'', False),
      (''wandb_group'', ''wandb_group'', False),
      (''wandb_id'', ''wandb_id'', False),
      (''wandb_anonymous'', ''wandb_anonymous'', False),
      (''wandb_log_model'', ''wandb_log_model'', False),
      (''wandb_offline'', ''wandb_offline'', False),
      (''num_steps'', ''num_steps'', False),
      (''limit_val_batches'', ''limit_val_batches'', False),
      (''val_check_interval'', ''val_check_interval'', False),
      (''log_every_n_steps'', ''log_every_n_steps'', False),
      (''num_dataset_workers'', ''num_dataset_workers'', False),
      (''lr'', ''lr'', False),
      (''micro_batch_size'', ''micro_batch_size'', False),
      (''pipeline_model_parallel_size'', ''pipeline_model_parallel_size'', False),
      (''tensor_model_parallel_size'', ''tensor_model_parallel_size'', False),
      (''accumulate_grad_batches'', ''accumulate_grad_batches'', False),
      (''precision'', ''precision'', False),
      (''task_type'', ''task_type'', False),
      (''encoder_frozen'', ''encoder_frozen'', False),
      (''scale_lr_layer'', ''scale_lr_layer'', False),
      (''lr_multiplier'', ''lr_multiplier'', False),
      (''mlp_ft_dropout'', ''mlp_ft_dropout'', False),
      (''mlp_hidden_size'', ''mlp_hidden_size'', False),
      (''mlp_target_size'', ''mlp_target_size'', False),
      (''cnn_dropout'', ''cnn_dropout'', False),
      (''cnn_hidden_size'', ''cnn_hidden_size'', False),
      (''cnn_num_classes'', ''cnn_num_classes'', False),
      (''experiment_name'', ''experiment_name'', False),
      (''resume_if_exists'', ''resume_if_exists'', False),
      (''restore_from_checkpoint_path'', ''restore_from_checkpoint_path'', False),
      (''save_last_checkpoint'', ''save_last_checkpoint'', False),
      (''metric_to_monitor_for_checkpoints'', ''metric_to_monitor_for_checkpoints'', False),
      (''save_top_k'', ''save_top_k'', False),
      (''nsys_profiling'', ''nsys_profiling'', False),
      (''nsys_start_step'', ''nsys_start_step'', False),
      (''nsys_end_step'', ''nsys_end_step'', False),
      (''nsys_ranks'', ''nsys_ranks'', False),
      (''dataset_class'', ''dataset_class'', False),
      (''config_class'', ''config_class'', False),
      (''overlap_grad_reduce'', ''overlap_grad_reduce'', False),
      (''overlap_param_gather'', ''no_overlap_param_gather'', True),
      (''average_in_collective'', ''no_average_in_collective'', True),
      (''grad_reduce_in_fp32'', ''grad_reduce_in_fp32'', False),
      (''ckpt_async_save'', ''avoid_ckpt_async_save'', True),
      (''label_column'', ''label_column'', False),
      (''lora_checkpoint_path'', ''lora_checkpoint_path'', False),
      (''lora_finetune'', ''lora_finetune'', False),
      (''create_tensorboard_logger'', ''create_tensorboard_logger'', False)]"

fun read_kwargs :: "namespace \<Rightarrow> (string \<times> string \<times> bool) list \<Rightarrow> error + (string \<times> pyval) list" where
  "read_kwargs ns [] = Inr []"
| "read_kwargs ns ((kw, attr, negated) # rest) =
     bind_err (getattr ns attr) (\<lambda>v.
       bind_err (read_kwargs ns rest) (\<lambda>vs.
         Inr ((kw, if negated then PyBool (\<not> truthy v) else v) # vs)))"

text \<open>
  The two checks of \<^verbatim>\<open>finetune_esm2_entrypoint\<close> that precede the call of \<^verbatim>\<open>train_model\<close>.
  \<^verbatim>\<open>and\<close> evaluates its right operand only when the left one is true.
\<close>

definition check_arguments :: "namespace \<Rightarrow> error + unit" where
  "check_arguments args =
     bind_err (getattr args ''min_seq_length'') (\<lambda>min_seq_length.
       bind_err (if min_seq_length \<noteq> PyNone
                 then bind_err (getattr args ''datset_class'')
                        (\<lambda>c. Inr (c = PyClass ''InMemorySingleValueDataset''))
                 else Inr False) (\<lambda>single_value.
         if single_value
         then Inl (ParserError
                ''Arguments --min-seq-length cannot be set when using InMemorySingleValueDataset.'')
         else
           bind_err (getattr args ''lora_checkpoint_path'') (\<lambda>lora_checkpoint_path.
             bind_err (if truthy lora_checkpoint_path
                       then bind_err (getattr args ''lora_finetune'') (\<lambda>f. Inr (\<not> truthy f))
                       else Inr False) (\<lambda>lora_conflict.
               if lora_conflict
               then Inl (ParserError
                      ''Arguments --lora=checkpoint-path cannot be set when not using lora-finetune.'')
               else Inr ()))))"

text \<open>
  \<^verbatim>\<open>train_model\<close> itself is the parameter \<open>train_model\<close>: it receives the keyword arguments
  and returns its result or raises.
\<close>

definition finetune_esm2_entrypoint ::
  "((string \<times> pyval) list \<Rightarrow> error + 'r) \<Rightarrow> namespace \<Rightarrow> error + 'r" where
  "finetune_esm2_entrypoint train_model args =
     bind_err (check_arguments args) (\<lambda>_.
       bind_err (read_kwargs args train_model_kwargs) train_model)"

section \<open>Concrete inputs\<close>

text \<open>
  Small inputs on which the statements below are evaluated: a three-letter tokenizer, a
  corpus of three records, a data module as \<^verbatim>\<open>__init__\<close> leaves it with the defaults of the
  source and a trainer attached, a stand-in for \<^verbatim>\<open>infer_num_samples\<close>, and a toy generator
  whose draws alternate between 0 and 0.95.
\<close>

definition example_tokenizer :: BioNeMoAMPLIFYTokenizer where
  "example_tokenizer =
     \<lparr>encode = map_of [(CHR ''A'', 5), (CHR ''C'', 6), (CHR ''G'', 7)],
      mask_token_id = 2, pad_token_id = Some 0,
      amino_acid_token_ids = [5, 6, 7], all_token_ids = [0, 1, 2, 3, 4, 5, 6, 7]\<rparr>"

definition example_corpus :: HFAmplifyDataset where
  "example_corpus =
     [\<lparr>sequence = ''ACG'', metadata = None\<rparr>,
      \<lparr>sequence = ''GGAC'', metadata = None\<rparr>,
      \<lparr>sequence = ''C'', metadata = Some ''E. coli''\<rparr>]"

definition example_module :: "BioNeMoAMPLIFYTokenizer \<Rightarrow> Trainer option \<Rightarrow> AMPLIFYDataModule" where
  "example_module tok tr =
     \<lparr>dm_train_hf_dataset = example_corpus, dm_valid_hf_dataset = example_corpus, dm_seed = 42,
      dm_min_seq_length = None, dm_max_seq_length = 512, dm_mask_prob = 0.15,
      dm_mask_token_prob = 0.8, dm_mask_random_prob = 0.1,
      dm_random_mask_strategy = AMINO_ACIDS_ONLY, dm_tokenizer = tok,
      dm_micro_batch_size = 512, dm_num_workers = 10,
      dm_persistent_workers = True, dm_pin_memory = True,
      data_sampler = \<lparr>seq_len = 512, micro_batch_size = 512, global_batch_size = 4096,
                       sampler_dataloader_type = single, rampup_batch_size = None\<rparr>,
      trainer = tr, dm_train_ds = None, dm_valid_ds = None, init_global_step = 0\<rparr>"

definition example_trainer :: "int \<Rightarrow> Trainer" where
  "example_trainer steps = \<lparr>max_epochs = None, max_steps = steps, limit_val_batches = LimitInt 2\<rparr>"

definition example_infer :: infer_num_samples where
  "example_infer lb n gbs stage =
     (case lb of LimitInt k \<Rightarrow> Inr (k * gbs) | LimitFloat x \<Rightarrow> Inr n | LimitNone \<Rightarrow> Inr n)"

definition example_dataset :: "int \<Rightarrow> AMPLIFYMaskedResidueDataset" where
  "example_dataset maxlen =
     \<lparr>hf_dataset = example_corpus, seed = 42, max_seq_length = maxlen, mask_prob = 0.15,
      mask_token_prob = 0.8, mask_random_prob = 0.1, random_mask_strategy = AMINO_ACIDS_ONLY,
      tokenizer = example_tokenizer\<rparr>"

definition example_generator :: "nat RandomGenerator" where
  "example_generator =
     \<lparr>derive_rng = (\<lambda>s i. nat \<bar>s\<bar> + i),
      random = (\<lambda>g. (if even g then 0 else 0.95, Suc g)),
      choice = (\<lambda>g pool. (case pool of [] \<Rightarrow> 0 | x # xs \<Rightarrow> x, Suc g))\<rparr>"

text \<open>
  Two worker processes in different states: one fresh, one that has already created five
  generators and holds other generator states throughout its store.
\<close>

definition example_process_a :: "nat process" where
  "example_process_a = \<lparr>worker_id = 0, generators = (\<lambda>h. 0), next_handle = 0\<rparr>"

definition example_process_b :: "nat process" where
  "example_process_b = \<lparr>worker_id = 3, generators = (\<lambda>h. 17 + h), next_handle = 5\<rparr>"

definition example_batch :: "MaskedExample list" where
  "example_batch =
     [\<lparr>input_ids = [5, 2, 7, 5, 6], labels = [- 100, 6, - 100, - 100, - 100]\<rparr>,
      \<lparr>input_ids = [7, 7, 5, 6, 2, 5, 5, 6], labels = [- 100, - 100, - 100, - 100, 7, - 100, 5, - 100]\<rparr>,
      \<lparr>input_ids = [6, 6, 5], labels = [- 100, - 100, - 100]\<rparr>]"

section \<open>Properties of the data module\<close>

subsection \<open>Failing fast\<close>

text \<open>
  Claim C6.  When no trainer is attached, or the trainer's \<^verbatim>\<open>max_steps\<close> is not positive,
  \<^verbatim>\<open>setup\<close> raises a RuntimeError at once: the data module is left exactly as it was (no
  dataset and no resampler has been assigned) and \<^verbatim>\<open>infer_num_samples\<close> has not been
  consulted, since the outcome is the same for every such function.
\<close>

theorem setup_fails_fast_without_max_steps:
  assumes "case trainer dm of None \<Rightarrow> True | Some t \<Rightarrow> max_steps t \<le> 0"
  shows "(\<exists>msg. fst (AMPLIFYDataModule_setup infer dm) = Some (RuntimeError msg))
       \<and> fst (snd (AMPLIFYDataModule_setup infer dm)) = dm
       \<and> AMPLIFYDataModule_setup infer dm = AMPLIFYDataModule_setup infer' dm"
  using assms by (auto simp: AMPLIFYDataModule_setup_def Let_def split: option.splits)

theorem setup_fails_fast_witness:
  "fst (AMPLIFYDataModule_setup example_infer (example_module example_tokenizer None))
     = Some (RuntimeError ''Setup should be completed when trainer and config are attached.'')
   \<and> fst (AMPLIFYDataModule_setup example_infer
            (example_module example_tokenizer (Some (example_trainer (- 1)))))
     = Some (RuntimeError ''Please specify trainer.max_steps'')
   \<and> dm_train_ds (fst (snd (AMPLIFYDataModule_setup example_infer
            (example_module example_tokenizer (Some (example_trainer (- 1))))))) = None"
  using setup_fails_fast_without_max_steps
          [of "example_module example_tokenizer None" example_infer example_infer]
        setup_fails_fast_without_max_steps
          [of "example_module example_tokenizer (Some (example_trainer (- 1)))"
              example_infer example_infer]
  by (simp add: AMPLIFYDataModule_setup_def example_module_def example_trainer_def)

text \<open>
  Claim C10.  \<^verbatim>\<open>test_dataloader\<close> raises NotImplementedError on every data module, in every
  state, and leaves the module as it was: it never yields a loader.
\<close>

theorem test_dataloader_not_implemented:
  "fst (test_dataloader dm) = Inl (NotImplementedError ''No test dataset provided for AMPLIFY'')
   \<and> snd (test_dataloader dm) = dm"
  by (simp add: test_dataloader_def)

subsection \<open>A successful setup\<close>

lemma make_dataset_ok:
  "dm_mask_token_prob dm + dm_mask_random_prob dm \<le> 1 \<Longrightarrow>
   make_dataset dm hf =
     Inr \<lparr>hf_dataset = hf, seed = dm_seed dm, max_seq_length = dm_max_seq_length dm,
          mask_prob = dm_mask_prob dm, mask_token_prob = dm_mask_token_prob dm,
          mask_random_prob = dm_mask_random_prob dm,
          random_mask_strategy = dm_random_mask_strategy dm, tokenizer = dm_tokenizer dm\<rparr>"
  by (simp add: make_dataset_def AMPLIFYMaskedResidueDataset_init_def)

lemma setup_success:
  assumes "trainer dm = Some t" "0 < max_steps t"
    "dm_mask_token_prob dm + dm_mask_random_prob dm \<le> 1"
    "infer (limit_val_batches t) (int (length (dm_valid_hf_dataset dm)))
        (global_batch_size (data_sampler dm)) ''val'' = Inr n"
  shows "AMPLIFYDataModule_setup infer dm =
    (None,
     dm\<lparr>dm_train_ds := Some
           \<lparr>dataset =
              \<lparr>hf_dataset = dm_train_hf_dataset dm, seed = dm_seed dm,
               max_seq_length = dm_max_seq_length dm, mask_prob = dm_mask_prob dm,
               mask_token_prob = dm_mask_token_prob dm,
               mask_random_prob = dm_mask_random_prob dm,
               random_mask_strategy = dm_random_mask_strategy dm,
               tokenizer = dm_tokenizer dm\<rparr>,
            num_samples = max_steps t * global_batch_size (data_sampler dm),
            shuffle = True, resampler_seed = dm_seed dm\<rparr>,
        dm_valid_ds := Some
           \<lparr>dataset =
              \<lparr>hf_dataset = dm_valid_hf_dataset dm, seed = dm_seed dm,
               max_seq_length = dm_max_seq_length dm, mask_prob = dm_mask_prob dm,
               mask_token_prob = dm_mask_token_prob dm,
               mask_random_prob = dm_mask_random_prob dm,
               random_mask_strategy = dm_random_mask_strategy dm,
               tokenizer = dm_tokenizer dm\<rparr>,
            num_samples = n, shuffle = False, resampler_seed = dm_seed dm\<rparr>\<rparr>,
     case max_epochs t of None \<Rightarrow> [] | Some e \<Rightarrow> if e > 1 then [max_epochs_warning] else [])"
  using assms
  by (simp add: AMPLIFYDataModule_setup_def Let_def make_dataset_ok dataset_len_def
      MultiEpochDatasetResampler_init_def)

text \<open>
  Claim C2.  With a trainer attached, a positive \<^verbatim>\<open>max_steps\<close>, masking probabilities the
  dataset accepts and a validation policy that returns \<open>n\<close> for
  (\<^verbatim>\<open>limit_val_batches\<close>, the length of the validation dataset, \<^verbatim>\<open>global_batch_size\<close>, "val"),
  \<^verbatim>\<open>setup\<close> returns normally; the training resampler then has
  \<^verbatim>\<open>num_samples = max_steps * global_batch_size\<close>, which is also its logical length, and the
  validation resampler has \<^verbatim>\<open>num_samples = n\<close>.
\<close>

theorem setup_sample_counts:
  assumes "trainer dm = Some t" "0 < max_steps t"
    "dm_mask_token_prob dm + dm_mask_random_prob dm \<le> 1"
    "infer (limit_val_batches t) (int (length (dm_valid_hf_dataset dm)))
        (global_batch_size (data_sampler dm)) ''val'' = Inr n"
  shows "fst (AMPLIFYDataModule_setup infer dm) = None
       \<and> map_option num_samples (dm_train_ds (fst (snd (AMPLIFYDataModule_setup infer dm))))
           = Some (max_steps t * global_batch_size (data_sampler dm))
       \<and> map_option resampler_len (dm_train_ds (fst (snd (AMPLIFYDataModule_setup infer dm))))
           = Some (max_steps t * global_batch_size (data_sampler dm))
       \<and> map_option num_samples (dm_valid_ds (fst (snd (AMPLIFYDataModule_setup infer dm))))
           = Some n"
  using setup_success [of dm t infer n] assms by (simp add: resampler_len_def)

theorem setup_sample_counts_witness:
  "map_option num_samples (dm_train_ds (fst (snd (AMPLIFYDataModule_setup example_infer
       (example_module example_tokenizer (Some (example_trainer 100))))))) = Some 409600
   \<and> map_option num_samples (dm_valid_ds (fst (snd (AMPLIFYDataModule_setup example_infer
       (example_module example_tokenizer (Some (example_trainer 100))))))) = Some 8192"
  using setup_sample_counts [of "example_module example_tokenizer (Some (example_trainer 100))"
      "example_trainer 100" example_infer 8192]
  by (simp add: example_module_def example_trainer_def example_infer_def)

text \<open>
  Claim C8.  After such a setup the training dataset is wrapped in a resampler with
  \<^verbatim>\<open>shuffle=True\<close> and \<^verbatim>\<open>num_samples = max_steps * global_batch_size\<close>, the validation dataset
  in a resampler with \<^verbatim>\<open>shuffle=False\<close> and the inferred \<^verbatim>\<open>num_samples\<close>; both carry the seed
  of the data module, and each wraps the dataset over its own corpus.
\<close>

theorem setup_resamplers:
  assumes "trainer dm = Some t" "0 < max_steps t"
    "dm_mask_token_prob dm + dm_mask_random_prob dm \<le> 1"
    "infer (limit_val_batches t) (int (length (dm_valid_hf_dataset dm)))
        (global_batch_size (data_sampler dm)) ''val'' = Inr n"
  shows "map_option (\<lambda>r. (shuffle r, num_samples r, resampler_seed r, hf_dataset (dataset r)))
           (dm_train_ds (fst (snd (AMPLIFYDataModule_setup infer dm))))
         = Some (True, max_steps t * global_batch_size (data_sampler dm), dm_seed dm,
                 dm_train_hf_dataset dm)
       \<and> map_option (\<lambda>r. (shuffle r, num_samples r, resampler_seed r, hf_dataset (dataset r)))
           (dm_valid_ds (fst (snd (AMPLIFYDataModule_setup infer dm))))
         = Some (False, n, dm_seed dm, dm_valid_hf_dataset dm)"
  using setup_success [of dm t infer n] assms by simp

theorem setup_resamplers_witness:
  "map_option (\<lambda>r. (shuffle r, num_samples r, resampler_seed r, hf_dataset (dataset r)))
     (dm_train_ds (fst (snd (AMPLIFYDataModule_setup example_infer
        (example_module example_tokenizer (Some (example_trainer 100)))))))
     = Some (True, 409600, 42, example_corpus)
   \<and> map_option (\<lambda>r. (shuffle r, num_samples r, resampler_seed r, hf_dataset (dataset r)))
     (dm_valid_ds (fst (snd (AMPLIFYDataModule_setup example_infer
        (example_module example_tokenizer (Some (example_trainer 100)))))))
     = Some (False, 8192, 42, example_corpus)"
  using setup_resamplers [of "example_module example_tokenizer (Some (example_trainer 100))"
      "example_trainer 100" example_infer 8192]
  by (simp add: example_module_def example_trainer_def example_infer_def)

subsection \<open>The pad token id\<close>

text \<open>
  Claim C7, as stated, fails on the code: \<^verbatim>\<open>__init__\<close> never inspects the tokenizer, so
  constructing the data module with a tokenizer that has no pad token id succeeds.
\<close>

theorem init_accepts_missing_pad_token_id:
  "pad_token_id (example_tokenizer\<lparr>pad_token_id := None\<rparr>) = None
   \<and> AMPLIFYDataModule_init example_corpus example_corpus 42 None 512 512 4096 10 True True None
        0.15 0.8 0.1 AMINO_ACIDS_ONLY (example_tokenizer\<lparr>pad_token_id := None\<rparr>) single
      = Inr (example_module (example_tokenizer\<lparr>pad_token_id := None\<rparr>) None)"
  by (simp add: AMPLIFYDataModule_init_def example_module_def example_tokenizer_def)

text \<open>
  Claim C7, amended.  The construction never raises, whatever the tokenizer.  With a
  tokenizer lacking a pad token id it is the creation of a data loader that fails:
  \<^verbatim>\<open>_create_dataloader\<close>, and with it \<^verbatim>\<open>train_dataloader\<close> and \<^verbatim>\<open>val_dataloader\<close>, yields no
  loader (hence no collate function and no batch), and once
  \<^verbatim>\<open>update_init_global_step\<close> has returned the exception is the AssertionError of the
  assertion on \<^verbatim>\<open>pad_token_id\<close>.
\<close>

theorem dataloader_requires_pad_token_id:
  assumes "pad_token_id (dm_tokenizer dm) = None"
  shows "isl (fst (create_dataloader upd dm ds mode))
       \<and> isl (fst (train_dataloader upd dm))
       \<and> isl (fst (val_dataloader upd dm))
       \<and> (\<forall>step. upd dm = Inr step \<longrightarrow>
            fst (create_dataloader upd dm ds mode)
              = Inl (AssertionError ''Tokenizer must have a pad token id.''))
       \<and> \<not> isl (AMPLIFYDataModule_init train_hf valid_hf sd min_len max_len mbs gbs workers
                  persistent pin rampup mp mtp mrp strat (dm_tokenizer dm) dl_type)"
  using assms
  by (auto simp: create_dataloader_def train_dataloader_def val_dataloader_def Let_def
        AMPLIFYDataModule_init_def split: sum.splits option.splits)

theorem dataloader_requires_pad_token_id_witness:
  "fst (create_dataloader (\<lambda>dm. Inr 0)
          (example_module (example_tokenizer\<lparr>pad_token_id := None\<rparr>) (Some (example_trainer 100)))
          (MultiEpochDatasetResampler_init (example_dataset 512) 409600 True 42) train)
     = Inl (AssertionError ''Tokenizer must have a pad token id.'')"
  using dataloader_requires_pad_token_id
     [of "example_module (example_tokenizer\<lparr>pad_token_id := None\<rparr>) (Some (example_trainer 100))"
         "\<lambda>dm. Inr 0" "MultiEpochDatasetResampler_init (example_dataset 512) 409600 True 42" train]
  by (simp add: example_module_def example_tokenizer_def)

section \<open>Properties of collation\<close>

text \<open>
  A loader that \<^verbatim>\<open>_create_dataloader\<close> returns collates with the pad token id of the
  tokenizer and the length bounds of the data module.
\<close>

lemma created_loader_collate_fn:
  assumes "create_dataloader upd dm ds mode = (Inr loader, dm')"
  shows "\<exists>pad. pad_token_id (dm_tokenizer dm) = Some pad
           \<and> collate_fn loader batch
               = bert_padding_collate_fn batch pad (dm_min_seq_length dm) (dm_max_seq_length dm)"
  using assms
  by (auto simp: create_dataloader_def collate_fn_def Let_def split: sum.splits option.splits)

lemma example_len_le_target:
  assumes "ex \<in> set batch"
  shows "int (example_len ex) \<le> target_length min_length batch"
proof -
  have "int (example_len ex) \<le> Max (set (map (\<lambda>ex. int (example_len ex)) batch))"
    using assms by (intro Max_ge) auto
  then show ?thesis by (simp add: target_length_def)
qed

text \<open>
  Claim C3.  For a non-empty micro-batch of examples whose \<^verbatim>\<open>labels\<close> are as long as their
  \<^verbatim>\<open>input_ids\<close>, the target length is \<^verbatim>\<open>max(min_seq_length or 0, max(len(ex)))\<close>.  If
  some example is longer than \<^verbatim>\<open>max_seq_length\<close> collation fails with BatchTooLongError.
  Otherwise it returns a batch with one row for each example, in the order of the input;
  row \<open>i\<close> of \<^verbatim>\<open>input_ids\<close> is the example's ids followed by the padding value, row \<open>i\<close> of
  \<^verbatim>\<open>labels\<close> is its labels followed by the ignore sentinel, and every row has the target
  length.
\<close>

theorem collation_pads_to_target_length:
  assumes "batch \<noteq> []"
    and "\<forall>ex \<in> set batch. length (labels ex) = length (input_ids ex)"
  shows "target_length min_length batch
           = max (case min_length of None \<Rightarrow> 0 | Some m \<Rightarrow> m)
                 (Max ((\<lambda>ex. int (length (input_ids ex))) ` set batch))
       \<and> (if \<exists>ex \<in> set batch. max_length < int (length (input_ids ex))
          then bert_padding_collate_fn batch pad min_length max_length = Inl BatchTooLongError
          else \<exists>b. bert_padding_collate_fn batch pad min_length max_length = Inr b
                 \<and> length (batch_input_ids b) = length batch
                 \<and> length (batch_labels b) = length batch
                 \<and> (\<forall>i < length batch.
                       batch_input_ids b ! i
                         = input_ids (batch ! i)
                           @ replicate (nat (target_length min_length batch)
                                          - length (input_ids (batch ! i))) pad
                     \<and> batch_labels b ! i
                         = labels (batch ! i)
                           @ replicate (nat (target_length min_length batch)
                                          - length (labels (batch ! i))) ignore_sentinel
                     \<and> length (batch_input_ids b ! i) = nat (target_length min_length batch)
                     \<and> length (batch_labels b ! i) = nat (target_length min_length batch)))"
proof -
  have len: "length (input_ids (batch ! i)) \<le> nat (target_length min_length batch)"
    if "i < length batch" for i
    using example_len_le_target [of "batch ! i" batch min_length] that
    by (simp add: example_len_def)
  have tl: "target_length min_length batch
           = max (case min_length of None \<Rightarrow> 0 | Some m \<Rightarrow> m)
                 (Max ((\<lambda>ex. int (length (input_ids ex))) ` set batch))"
    by (simp add: target_length_def example_len_def)
  show ?thesis
  proof (cases "\<exists>ex \<in> set batch. max_length < int (length (input_ids ex))")
    case True
    then show ?thesis using assms(1) tl
      by (simp add: bert_padding_collate_fn_def list_ex_iff example_len_def Let_def)
  next
    case False
    then show ?thesis using assms tl len
      by (simp add: bert_padding_collate_fn_def list_ex_iff example_len_def Let_def pad_to_def
            not_less)
  qed
qed

text \<open>
  The example of the specification: lengths 5, 8 and 3 with \<^verbatim>\<open>max_seq_length = 10\<close> and no
  minimum give the target length 8.
\<close>

theorem collation_example_lengths_5_8_3:
  "map example_len example_batch = [5, 8, 3]
   \<and> target_length None example_batch = 8
   \<and> bert_padding_collate_fn example_batch 0 None 10
       = Inr \<lparr>batch_input_ids = [[5, 2, 7, 5, 6, 0, 0, 0], [7, 7, 5, 6, 2, 5, 5, 6],
                                  [6, 6, 5, 0, 0, 0, 0, 0]],
              batch_labels = [[- 100, 6, - 100, - 100, - 100, - 100, - 100, - 100],
                              [- 100, - 100, - 100, - 100, 7, - 100, 5, - 100],
                              [- 100, - 100, - 100, - 100, - 100, - 100, - 100, - 100]],
              batch_mask = [[True, True, True, True, True, False, False, False],
                            [True, True, True, True, True, True, True, True],
                            [True, True, True, False, False, False, False, False]]\<rparr>"
  using collation_pads_to_target_length [of example_batch None 10 0]
  by (simp add: example_batch_def example_len_def target_length_def bert_padding_collate_fn_def
        pad_to_def ignore_sentinel_def numeral_eq_Suc)

section \<open>Properties of the resampler\<close>

lemma underlying_index_unfold:
  assumes "0 \<le> position" "position < num_samples r" "0 < dataset_len (dataset r)"
  shows "underlying_index perm r position
           = list_get (if shuffle r
                       then perm (resampler_seed r) (position div dataset_len (dataset r))
                              (nat (dataset_len (dataset r)))
                       else [0..<nat (dataset_len (dataset r))])
                      (nat (position mod dataset_len (dataset r)))"
  using assms by (simp add: underlying_index_def Let_def)

lemma underlying_index_identity:
  assumes "0 \<le> position" "position < num_samples r" "0 < dataset_len (dataset r)" "\<not> shuffle r"
  shows "underlying_index perm r position = Inr (nat (position mod dataset_len (dataset r)))"
proof -
  have "nat (position mod dataset_len (dataset r)) < nat (dataset_len (dataset r))"
    using assms(3) by (simp add: nat_less_iff)
  then show ?thesis
    using assms by (simp add: underlying_index_unfold list_get_def)
qed

lemma unshuffled_single_epoch:
  assumes "\<not> shuffle r" "num_samples r = dataset_len (dataset r)"
  shows "map (underlying_index perm r) (map int [0..<nat (num_samples r)])
           = map Inr [0..<nat (dataset_len (dataset r))]"
proof -
  have "underlying_index perm r (int k) = Inr k" if "k < nat (num_samples r)" for k
  proof -
    have "int k < num_samples r" using that by simp
    then show ?thesis
      using underlying_index_identity [of "int k" r perm] assms by simp
  qed
  then show ?thesis using assms(2) by simp
qed

text \<open>
  Claim C4.  For a position in \<^verbatim>\<open>[0, num_samples)\<close> over a non-empty dataset, the resampler
  looks up offset \<^verbatim>\<open>position % epoch_length\<close> in the permutation of epoch
  \<^verbatim>\<open>position // epoch_length\<close>, which is derived from the seed and the epoch when
  \<^verbatim>\<open>shuffle\<close> is set and is the identity otherwise, and delegates to the wrapped dataset
  at the index found.  Without shuffling the index is the offset itself, and when also
  \<^verbatim>\<open>num_samples == epoch_length\<close> the positions 0, 1, ... map to the indices
  0, 1, ..., \<^verbatim>\<open>epoch_length - 1\<close>.
\<close>

theorem resampler_get_contract:
  assumes "0 \<le> position" "position < num_samples r" "0 < dataset_len (dataset r)"
  shows "underlying_index perm r position
           = list_get (if shuffle r
                       then perm (resampler_seed r) (position div dataset_len (dataset r))
                              (nat (dataset_len (dataset r)))
                       else [0..<nat (dataset_len (dataset r))])
                      (nat (position mod dataset_len (dataset r)))
       \<and> resampler_get ops perm r position
           = bind_err (underlying_index perm r position) (getitem ops (dataset r))
       \<and> (\<not> shuffle r \<longrightarrow>
            underlying_index perm r position = Inr (nat (position mod dataset_len (dataset r)))
          \<and> resampler_get ops perm r position
              = getitem ops (dataset r) (nat (position mod dataset_len (dataset r))))
       \<and> (\<not> shuffle r \<and> num_samples r = dataset_len (dataset r) \<longrightarrow>
            map (underlying_index perm r) (map int [0..<nat (num_samples r)])
              = map Inr [0..<nat (dataset_len (dataset r))])"
  using assms underlying_index_unfold [of position r perm]
    underlying_index_identity [of position r perm] unshuffled_single_epoch [of r perm]
  by (simp add: resampler_get_def bind_err_def)

theorem resampler_get_contract_witness:
  "map (underlying_index (\<lambda>s e n. [])
          (MultiEpochDatasetResampler_init (example_dataset 512) 3 False 42)) [0, 1, 2]
     = [Inr 0, Inr 1, Inr 2]
   \<and> underlying_index (\<lambda>s e n. [])
          (MultiEpochDatasetResampler_init (example_dataset 512) 3 False 42) 2 = Inr 2"
proof -
  let ?r = "MultiEpochDatasetResampler_init (example_dataset 512) 3 False 42"
  have r: "dataset_len (dataset ?r) = 3" "num_samples ?r = 3" "\<not> shuffle ?r"
    by (simp_all add: MultiEpochDatasetResampler_init_def example_dataset_def
          example_corpus_def dataset_len_def)
  have h: "(0::int) \<le> 2" "2 < num_samples ?r" "0 < dataset_len (dataset ?r)"
    using r by simp_all
  have upt: "map int [0..<nat 3] = [0, 1, 2]" "[0..<nat 3] = [0, 1, 2]"
    by (simp_all add: eval_nat_numeral)
  note c = resampler_get_contract [OF h, of "\<lambda>s e n. []" example_generator]
  have "map (underlying_index (\<lambda>s e n. []) ?r) (map int [0..<nat (num_samples ?r)])
          = map Inr [0..<nat (dataset_len (dataset ?r))]"
    using c r(2,3) by (simp only: r(1)) blast
  then have a: "map (underlying_index (\<lambda>s e n. []) ?r) [0, 1, 2] = [Inr 0, Inr 1, Inr 2]"
    unfolding r upt by simp
  have "underlying_index (\<lambda>s e n. []) ?r 2
          = Inr (nat (2 mod dataset_len (dataset ?r)))"
    using c r(3) by blast
  then have b: "underlying_index (\<lambda>s e n. []) ?r 2 = Inr 2"
    unfolding r by simp
  from a b show ?thesis by (rule conjI)
qed

section \<open>Properties of the masked-residue dataset\<close>

subsection \<open>The example evaluated\<close>

text \<open>
  Record 0 of the example corpus is \<^verbatim>\<open>ACG\<close>, tokens 5, 6, 7.  With the toy generator the
  positions 0 and 2 are selected; position 0 takes the "unchanged" branch and position 2
  the mask token.
\<close>

lemma example_original_0: "original_tokens (example_dataset 512) 0 = Inr [5, 6, 7]"
  by (simp add: original_tokens_def example_dataset_def example_corpus_def bind_err_def
        list_get_def example_tokenizer_def Let_def)

lemma example_selection_0:
  "selection example_generator (example_dataset 512) [5, 6, 7]
     (derive_rng example_generator (seed (example_dataset 512)) 0) = [True, False, True]"
  by (simp add: selection_def example_generator_def example_dataset_def Let_def)

lemma example_getitem_0:
  "getitem example_generator (example_dataset 512) 0
     = Inr \<lparr>input_ids = [5, 6, 2], labels = [5, - 100, 7]\<rparr>"
  by (simp add: getitem_def example_original_0 bind_err_def mask_example_def build_labels_def
        example_generator_def Let_def ignore_sentinel_def)
     (simp add: example_dataset_def example_tokenizer_def)

subsection \<open>Shape and unmasked positions\<close>

lemma draw_selection_length: "length (fst (draw_selection ops p n g)) = n"
  by (induction n arbitrary: g) (simp_all add: Let_def case_prod_beta)

lemma apply_decisions_length: "length (apply_decisions ops ds toks sel g) = length toks"
proof (induction toks arbitrary: sel g)
  case Nil
  show ?case by simp
next
  case (Cons t ts)
  show ?case
    by (cases sel) (simp_all add: Cons.IH Let_def case_prod_beta)
qed

lemma apply_decisions_unselected:
  "pos < length toks \<Longrightarrow> pos < length sel \<Longrightarrow> \<not> sel ! pos \<Longrightarrow>
   apply_decisions ops ds toks sel g ! pos = toks ! pos"
proof (induction toks arbitrary: sel g pos)
  case Nil
  then show ?case by simp
next
  case (Cons t ts)
  show ?case
  proof (cases sel)
    case Nil
    with Cons.prems show ?thesis by simp
  next
    case sel: (Cons b bs)
    show ?thesis
    proof (cases pos)
      case 0
      with Cons.prems sel show ?thesis by simp
    next
      case (Suc k)
      with Cons.prems sel have "k < length ts" "k < length bs" "\<not> bs ! k" by simp_all
      then have "apply_decisions ops ds ts bs g' ! k = ts ! k" for g'
        by (rule Cons.IH)
      with Suc sel show ?thesis
        by (simp add: Let_def case_prod_beta)
    qed
  qed
qed

lemma encode_all_length: "encode_all tok cs = Inr ts \<Longrightarrow> length ts = length cs"
  by (induction cs arbitrary: ts) (auto split: option.splits sum.splits)

lemma original_tokens_bounded:
  assumes "original_tokens ds i = Inr toks"
  shows "toks \<noteq> [] \<and> int (length toks) \<le> max_seq_length ds"
  using assms
  by (auto simp: original_tokens_def bind_err_def list_get_def Let_def
        dest!: encode_all_length split: sum.splits if_splits)

lemma build_labels_nth:
  "length sel = length toks \<Longrightarrow> pos < length toks \<Longrightarrow>
   build_labels toks sel ! pos = (if sel ! pos then toks ! pos else ignore_sentinel)"
  by (simp add: build_labels_def)

lemma getitem_Inr:
  assumes "getitem ops ds i = Inr ex"
  obtains toks where "original_tokens ds i = Inr toks"
    and "ex = mask_example ops ds toks (derive_rng ops (seed ds) i)"
  using assms by (auto simp: getitem_def bind_err_def Let_def split: sum.splits)

lemma mask_example_fields:
  "input_ids (mask_example ops ds toks g)
     = apply_decisions ops ds toks (selection ops ds toks g)
         (snd (draw_selection ops (mask_prob ds) (length toks) g))"
  "labels (mask_example ops ds toks g) = build_labels toks (selection ops ds toks g)"
  by (simp_all add: mask_example_def selection_def case_prod_beta)

text \<open>
  Claim C5, as stated, fails: it is not exactly the selected positions that differ from
  the original sequence.  Position 0 of the example is selected for masking (its label is
  the original token), and \<^verbatim>\<open>input_ids\<close> still holds the original token there.
\<close>

theorem selected_position_left_unchanged:
  "original_tokens (example_dataset 512) 0 = Inr [5, 6, 7]
   \<and> getitem example_generator (example_dataset 512) 0
       = Inr \<lparr>input_ids = [5, 6, 2], labels = [5, - 100, 7]\<rparr>
   \<and> selection example_generator (example_dataset 512) [5, 6, 7]
        (derive_rng example_generator (seed (example_dataset 512)) 0) ! 0
   \<and> input_ids \<lparr>input_ids = [5, 6, 2], labels = [5, - 100, 7]\<rparr> ! 0 = [5, 6, 7 :: int] ! 0"
  by (simp add: example_original_0 example_selection_0 example_getitem_0)

text \<open>
  Claim C5, amended.  For every example the dataset produces, \<^verbatim>\<open>input_ids\<close> and \<^verbatim>\<open>labels\<close>
  have the length of the truncated, tokenized sequence, which is at most
  \<^verbatim>\<open>max_seq_length\<close>.  A position not selected for masking keeps the original token and
  carries the ignore sentinel as label; a selected position carries the original token
  as label; and \<^verbatim>\<open>input_ids\<close> differs from the original sequence only at selected
  positions (a selected position may keep its token).
\<close>

theorem masked_example_shape_and_unmasked_positions:
  assumes "getitem ops ds i = Inr ex"
  shows "\<exists>toks. original_tokens ds i = Inr toks
       \<and> length (input_ids ex) = length toks
       \<and> length (labels ex) = length toks
       \<and> int (length (input_ids ex)) \<le> max_seq_length ds
       \<and> length (selection ops ds toks (derive_rng ops (seed ds) i)) = length toks
       \<and> (\<forall>pos < length toks.
             (\<not> selection ops ds toks (derive_rng ops (seed ds) i) ! pos \<longrightarrow>
                input_ids ex ! pos = toks ! pos \<and> labels ex ! pos = ignore_sentinel)
           \<and> (selection ops ds toks (derive_rng ops (seed ds) i) ! pos \<longrightarrow>
                labels ex ! pos = toks ! pos)
           \<and> (input_ids ex ! pos \<noteq> toks ! pos \<longrightarrow>
                selection ops ds toks (derive_rng ops (seed ds) i) ! pos))"
proof -
  from assms obtain toks where toks: "original_tokens ds i = Inr toks"
    and ex: "ex = mask_example ops ds toks (derive_rng ops (seed ds) i)"
    by (rule getitem_Inr)
  let ?sel = "selection ops ds toks (derive_rng ops (seed ds) i)"
  have sel: "length ?sel = length toks"
    by (simp add: selection_def draw_selection_length)
  have l1: "length (input_ids ex) = length toks"
    by (simp add: ex mask_example_fields apply_decisions_length)
  have l2: "length (labels ex) = length toks"
    by (simp add: ex mask_example_fields build_labels_def sel)
  have l3: "int (length (input_ids ex)) \<le> max_seq_length ds"
    using original_tokens_bounded [OF toks] l1 by simp
  have un: "input_ids ex ! pos = toks ! pos" if "pos < length toks" "\<not> ?sel ! pos" for pos
    using that sel by (simp add: ex mask_example_fields apply_decisions_unselected)
  have lab: "labels ex ! pos = (if ?sel ! pos then toks ! pos else ignore_sentinel)"
    if "pos < length toks" for pos
    using that sel by (simp add: ex mask_example_fields build_labels_nth)
  show ?thesis
    using toks sel l1 l2 l3 un lab by auto
qed

theorem masked_example_shape_witness:
  "getitem example_generator (example_dataset 512) 0
     = Inr \<lparr>input_ids = [5, 6, 2], labels = [5, - 100, 7]\<rparr>
   \<and> length (input_ids \<lparr>input_ids = [5, 6, 2], labels = [5, - 100, 7]\<rparr>)
       = length (labels \<lparr>input_ids = [5, 6, 2], labels = [5, - 100, 7]\<rparr>)
   \<and> int (length (input_ids \<lparr>input_ids = [5, 6, 2], labels = [5, - 100, 7]\<rparr>))
       \<le> max_seq_length (example_dataset 512)
   \<and> \<not> selection example_generator (example_dataset 512) [5, 6, 7]
          (derive_rng example_generator (seed (example_dataset 512)) 0) ! 1
   \<and> input_ids \<lparr>input_ids = [5, 6, 2], labels = [5, - 100, 7]\<rparr> ! 1 = [5, 6, 7 :: int] ! 1
   \<and> labels \<lparr>input_ids = [5, 6, 2], labels = [5, - 100, 7]\<rparr> ! 1 = ignore_sentinel"
  using masked_example_shape_and_unmasked_positions [OF example_getitem_0]
    example_original_0 example_selection_0 example_getitem_0
  by (simp add: ignore_sentinel_def example_dataset_def)

subsection \<open>Determinism\<close>

text \<open>
  The masking helpers never consult \<^verbatim>\<open>derive_rng\<close>: the only generator a call uses is the
  one it is handed.
\<close>

lemma draw_selection_derive_rng:
  "draw_selection (ops\<lparr>derive_rng := d\<rparr>) p n g = draw_selection ops p n g"
  by (induction n arbitrary: g) (simp_all add: Let_def case_prod_beta)

lemma apply_decisions_derive_rng:
  "apply_decisions (ops\<lparr>derive_rng := d\<rparr>) ds toks sel g = apply_decisions ops ds toks sel g"
proof (induction toks arbitrary: sel g)
  case Nil
  show ?case by simp
next
  case (Cons t ts)
  show ?case
    by (cases sel) (simp_all add: Cons.IH Let_def case_prod_beta)
qed

lemma mask_example_derive_rng:
  "mask_example (ops\<lparr>derive_rng := d\<rparr>) ds toks g = mask_example ops ds toks g"
  by (simp add: mask_example_def draw_selection_derive_rng apply_decisions_derive_rng)

text \<open>
  The call in a process refines the function \<open>getitem\<close>: each draw reads and writes the
  generator object behind the handle created for the call, so the draws are those of
  the generator \<^verbatim>\<open>derive_rng(seed, i)\<close>, and nothing else in the process is touched.
\<close>

lemma generators_set_generator [simp]:
  "generators (set_generator h g p) h' = (if h' = h then g else generators p h')"
  by (simp add: set_generator_def)

lemma worker_id_set_generator [simp]: "worker_id (set_generator h g p) = worker_id p"
  by (simp add: set_generator_def)

lemma next_handle_set_generator [simp]: "next_handle (set_generator h g p) = next_handle p"
  by (simp add: set_generator_def)

lemma set_generator_twice [simp]:
  "set_generator h g' (set_generator h g p) = set_generator h g' p"
  by (simp add: set_generator_def)

lemma set_generator_same [simp]: "set_generator h (generators p h) p = p"
  by (simp add: set_generator_def)

lemma draw_selection_in_refines:
  "draw_selection_in ops pr n h p
     = (fst (draw_selection ops pr n (generators p h)),
        set_generator h (snd (draw_selection ops pr n (generators p h))) p)"
proof (induction n arbitrary: p)
  case 0
  show ?case by simp
next
  case (Suc n)
  show ?case
    by (simp add: Suc.IH rng_random_def Let_def case_prod_beta)
qed

lemma apply_decisions_in_refines:
  "fst (apply_decisions_in ops ds toks sel h p) = apply_decisions ops ds toks sel (generators p h)
   \<and> (\<exists>g'. snd (apply_decisions_in ops ds toks sel h p) = set_generator h g' p)"
proof (induction toks arbitrary: sel p)
  case Nil
  have "p = set_generator h (generators p h) p" by simp
  then have "\<exists>g'. p = set_generator h g' p" by blast
  then show ?case by simp
next
  case (Cons t ts)
  have triv: "\<exists>g'. p = set_generator h g' p"
    using set_generator_same [of h p, symmetric] by blast
  show ?case
  proof (cases sel)
    case Nil
    with triv show ?thesis by simp
  next
    case sel: (Cons b bs)
    have step: "fst (apply_decisions_in ops ds ts bs h (set_generator h g p))
                  = apply_decisions ops ds ts bs g
                \<and> (\<exists>g'. snd (apply_decisions_in ops ds ts bs h (set_generator h g p))
                          = set_generator h g' p)" for g
    proof -
      from Cons.IH [of bs "set_generator h g p"] obtain g' where
        "fst (apply_decisions_in ops ds ts bs h (set_generator h g p))
           = apply_decisions ops ds ts bs (generators (set_generator h g p) h)"
        "snd (apply_decisions_in ops ds ts bs h (set_generator h g p))
           = set_generator h g' (set_generator h g p)"
        by blast
      then show ?thesis by auto
    qed
    show ?thesis
      using step Cons.IH [of bs p]
      by (simp add: sel rng_random_def rng_choice_def Let_def case_prod_beta)
  qed
qed

lemma new_generator_eq:
  "new_generator ops sd i p
     = (next_handle p,
        set_generator (next_handle p) (derive_rng ops sd i) (p\<lparr>next_handle := Suc (next_handle p)\<rparr>))"
  by (simp add: new_generator_def set_generator_def)

lemma getitem_in_refines: "fst (getitem_in ops ds i p) = getitem ops ds i"
proof (cases "original_tokens ds i")
  case (Inl e)
  then show ?thesis
    by (simp add: getitem_in_def getitem_def bind_err_def new_generator_eq Let_def)
next
  case (Inr toks)
  then show ?thesis
    by (simp add: getitem_in_def getitem_def bind_err_def new_generator_eq Let_def
          case_prod_beta mask_example_def draw_selection_in_refines
          apply_decisions_in_refines)
qed

lemma getitem_in_frame:
  "\<exists>g'. snd (getitem_in ops ds i p)
          = set_generator (next_handle p) g' (p\<lparr>next_handle := Suc (next_handle p)\<rparr>)"
proof (cases "original_tokens ds i")
  case (Inl e)
  then show ?thesis
    by (auto simp: getitem_in_def new_generator_eq Let_def)
next
  case (Inr toks)
  let ?h = "next_handle p"
  let ?p1 = "set_generator ?h (derive_rng ops (seed ds) i) (p\<lparr>next_handle := Suc ?h\<rparr>)"
  let ?p2 = "snd (draw_selection_in ops (mask_prob ds) (length toks) ?h ?p1)"
  let ?sel = "fst (draw_selection_in ops (mask_prob ds) (length toks) ?h ?p1)"
  obtain g' where "snd (apply_decisions_in ops ds toks ?sel ?h ?p2) = set_generator ?h g' ?p2"
    using apply_decisions_in_refines [of ops ds toks ?sel ?h ?p2] by blast
  then have "snd (apply_decisions_in ops ds toks ?sel ?h ?p2)
               = set_generator ?h g' (p\<lparr>next_handle := Suc ?h\<rparr>)"
    by (simp add: draw_selection_in_refines)
  then show ?thesis
    using Inr
    by (auto simp: getitem_in_def new_generator_eq Let_def case_prod_beta)
qed

lemma worker_results: "fst (worker ops ds indices p) = map (getitem ops ds) indices"
proof (induction indices arbitrary: p)
  case Nil
  show ?case by simp
next
  case (Cons i indices)
  show ?case
    using getitem_in_refines [of ops ds i p]
    by (simp add: Cons.IH Let_def case_prod_beta)
qed

lemma unshuffled_epochs_agree:
  assumes "\<not> shuffle r" "0 \<le> position" "0 \<le> e"
    "position + e * dataset_len (dataset r) < num_samples r"
  shows "underlying_index perm r (position + e * dataset_len (dataset r))
           = underlying_index perm r position"
proof -
  have "0 \<le> dataset_len (dataset r)" by (simp add: dataset_len_def)
  then have "0 \<le> e * dataset_len (dataset r)" using assms(3) by simp
  then have "position < num_samples r" "0 \<le> position + e * dataset_len (dataset r)"
    using assms(2,4) by linarith+
  then show ?thesis
    using assms by (simp add: underlying_index_def Let_def)
qed

text \<open>
  The state of a process does matter to a draw: the same draw on a generator already in
  the store gives different numbers in the two example processes.
\<close>

lemma shared_generator_draws_differ:
  "fst (rng_random example_generator 0 example_process_a) = 0
   \<and> fst (rng_random example_generator 0 example_process_b) = 0.95"
  by (simp add: rng_random_def example_generator_def example_process_a_def
        example_process_b_def)

text \<open>
  Claim C1.  For a fixed seed, the example the dataset returns at index \<open>i\<close> is the same
  in every process state: whatever the worker, whatever generators the process holds
  and in whatever state, however many calls were made before (two processes \<open>p\<close> and
  \<open>p'\<close>), and wherever the call stands in the sequence of calls a worker makes.  It
  is the masking of the record's tokens under the generator \<^verbatim>\<open>derive_rng(seed, i)\<close>; the
  call leaves the worker's identity and every generator the process already held
  unchanged; the generator derived for any other seed or index has no influence; and
  under an unshuffled resampler the positions that differ by whole epochs give the same
  example.
\<close>

theorem masked_example_deterministic:
  assumes "k < length indices" "indices ! k = i"
  shows "fst (getitem_in ops ds i p) = fst (getitem_in ops ds i p')
       \<and> fst (worker ops ds indices p) ! k = fst (getitem_in ops ds i p')
       \<and> fst (getitem_in ops ds i p)
           = bind_err (original_tokens ds i)
               (\<lambda>toks. Inr (mask_example ops ds toks (derive_rng ops (seed ds) i)))
       \<and> worker_id (snd (getitem_in ops ds i p)) = worker_id p
       \<and> (\<forall>h. h \<noteq> next_handle p \<longrightarrow>
              generators (snd (getitem_in ops ds i p)) h = generators p h)
       \<and> (d (seed ds) i = derive_rng ops (seed ds) i \<longrightarrow>
            fst (getitem_in (ops\<lparr>derive_rng := d\<rparr>) ds i p) = fst (getitem_in ops ds i p))
       \<and> (\<not> shuffle r \<and> 0 \<le> position \<and> 0 \<le> e
            \<and> position + e * dataset_len (dataset r) < num_samples r \<longrightarrow>
            resampler_get ops perm r (position + e * dataset_len (dataset r))
              = resampler_get ops perm r position)"
proof -
  have a: "fst (getitem_in ops ds i p) = fst (getitem_in ops ds i p')"
    by (simp add: getitem_in_refines)
  have b: "fst (worker ops ds indices p) ! k = fst (getitem_in ops ds i p')"
    using assms by (simp add: worker_results getitem_in_refines)
  have c: "fst (getitem_in ops ds i p)
           = bind_err (original_tokens ds i)
               (\<lambda>toks. Inr (mask_example ops ds toks (derive_rng ops (seed ds) i)))"
    by (simp add: getitem_in_refines getitem_def)
  obtain g' where fr: "snd (getitem_in ops ds i p)
          = set_generator (next_handle p) g' (p\<lparr>next_handle := Suc (next_handle p)\<rparr>)"
    using getitem_in_frame [of ops ds i p] by blast
  have d1: "worker_id (snd (getitem_in ops ds i p)) = worker_id p"
    by (simp add: fr)
  have d2: "\<forall>h. h \<noteq> next_handle p \<longrightarrow>
              generators (snd (getitem_in ops ds i p)) h = generators p h"
    by (simp add: fr)
  have e1: "d (seed ds) i = derive_rng ops (seed ds) i \<longrightarrow>
            fst (getitem_in (ops\<lparr>derive_rng := d\<rparr>) ds i p) = fst (getitem_in ops ds i p)"
    by (simp add: getitem_in_refines getitem_def Let_def mask_example_derive_rng)
  have f: "\<not> shuffle r \<and> 0 \<le> position \<and> 0 \<le> e
            \<and> position + e * dataset_len (dataset r) < num_samples r \<longrightarrow>
            resampler_get ops perm r (position + e * dataset_len (dataset r))
              = resampler_get ops perm r position"
    using unshuffled_epochs_agree [of r position e perm]
    by (simp add: resampler_get_def)
  from a b c d1 d2 e1 f show ?thesis by blast
qed

theorem masked_example_deterministic_witness:
  "fst (getitem_in example_generator (example_dataset 512) 0 example_process_a)
     = Inr \<lparr>input_ids = [5, 6, 2], labels = [5, - 100, 7]\<rparr>
   \<and> fst (getitem_in example_generator (example_dataset 512) 0 example_process_b)
     = Inr \<lparr>input_ids = [5, 6, 2], labels = [5, - 100, 7]\<rparr>
   \<and> fst (worker example_generator (example_dataset 512) [2, 0, 1] example_process_b) ! 1
     = Inr \<lparr>input_ids = [5, 6, 2], labels = [5, - 100, 7]\<rparr>
   \<and> fst (getitem_in (example_generator\<lparr>derive_rng := (\<lambda>s i. if i = 0 then 42 else 7)\<rparr>)
          (example_dataset 512) 0 example_process_b)
     = Inr \<lparr>input_ids = [5, 6, 2], labels = [5, - 100, 7]\<rparr>"
proof -
  let ?ex = "Inr \<lparr>input_ids = [5, 6, 2], labels = [5, - 100, 7]\<rparr> :: error + MaskedExample"
  have d: "(\<lambda>s i. if i = 0 then 42 else 7) (seed (example_dataset 512)) (0::nat)
             = derive_rng example_generator (seed (example_dataset 512)) 0"
    by (simp add: example_generator_def example_dataset_def)
  have h: "(1::nat) < length [2, 0, 1::nat]" "[2, 0, 1::nat] ! 1 = 0"
    by simp_all
  note t = masked_example_deterministic [OF h, where ops = example_generator
              and ds = "example_dataset 512" and p = example_process_b
              and p' = example_process_a and d = "\<lambda>s i. if i = 0 then 42 else 7"]
  have g: "bind_err (original_tokens (example_dataset 512) 0)
             (\<lambda>toks. Inr (mask_example example_generator (example_dataset 512) toks
                (derive_rng example_generator (seed (example_dataset 512)) 0))) = ?ex"
    using example_getitem_0 by (simp add: getitem_def)
  from t g have b: "fst (getitem_in example_generator (example_dataset 512) 0 example_process_b) = ?ex"
    by metis
  from t b have a: "fst (getitem_in example_generator (example_dataset 512) 0 example_process_a) = ?ex"
    by metis
  from t a have w: "fst (worker example_generator (example_dataset 512) [2, 0, 1] example_process_b) ! 1 = ?ex"
    by metis
  from t d b have e: "fst (getitem_in (example_generator\<lparr>derive_rng := (\<lambda>s i. if i = 0 then 42 else 7)\<rparr>)
          (example_dataset 512) 0 example_process_b) = ?ex"
    by metis
  from a b w e show ?thesis by (intro conjI)
qed

section \<open>Properties of the fine-tuning entrypoint\<close>

lemma parser_dests:
  "map (\<lambda>(opt, d). dest opt) get_parser =
     [''train_data_path'', ''valid_data_path'', ''precision'', ''task_type'', ''label_column'',
      ''encoder_frozen'', ''lr'', ''scale_lr_layer'', ''lr_multiplier'', ''mlp_ft_dropout'',
      ''mlp_hidden_size'', ''mlp_target_size'', ''cnn_dropout'', ''cnn_hidden_size'',
      ''cnn_num_classes'', ''create_tensorboard_logger'', ''resume_if_exists'', ''result_dir'',
      ''experiment_name'', ''wandb_entity'', ''wandb_project'', ''wandb_tags'', ''wandb_group'',
      ''wandb_id'', ''wandb_anonymous'', ''wandb_log_model'', ''wandb_offline'', ''num_gpus'',
      ''num_nodes'', ''num_steps'', ''num_dataset_workers'', ''val_check_interval'',
      ''log_every_n_steps'', ''min_seq_length'', ''max_seq_length'', ''limit_val_batches'',
      ''micro_batch_size'', ''pipeline_model_parallel_size'', ''tensor_model_parallel_size'',
      ''accumulate_grad_batches'', ''save_last_checkpoint'',
      ''metric_to_monitor_for_checkpoints'', ''save_top_k'', ''restore_from_checkpoint_path'',
      ''lora_finetune'', ''lora_checkpoint_path'', ''nsys_profiling'', ''nsys_start_step'',
      ''nsys_end_step'', ''nsys_ranks'', ''overlap_grad_reduce'', ''no_overlap_param_gather'',
      ''no_average_in_collective'', ''grad_reduce_in_fp32'', ''avoid_ckpt_async_save'',
      ''clip_grad'', ''config_class'', ''dataset_class'', ''seed'']"
  by (simp add: get_parser_def dest_def)

lemma datset_class_absent:
  assumes "parsed_namespace args"
  shows "args ''datset_class'' = None"
proof -
  have "''datset_class'' \<notin> set (map (\<lambda>(opt, d). dest opt) get_parser)"
    unfolding parser_dests by simp
  with assms have "''datset_class'' \<notin> dom args"
    by (simp add: parsed_namespace_def)
  then show ?thesis by (simp add: domIff)
qed

lemma first_parser_error_unreachable:
  assumes "parsed_namespace args"
  shows "check_arguments args \<noteq> Inl (ParserError
    ''Arguments --min-seq-length cannot be set when using InMemorySingleValueDataset.'')"
  using datset_class_absent [OF assms]
  by (auto simp: check_arguments_def bind_err_def getattr_def
        split: option.splits sum.splits if_splits)

text \<open>
  Claim C9.  For every namespace \<^verbatim>\<open>parse_args\<close> can return in which \<^verbatim>\<open>min_seq_length\<close> is not
  \<^verbatim>\<open>None\<close>, the entrypoint raises AttributeError for the attribute \<^verbatim>\<open>datset_class\<close>, which
  no option of the parser defines, whatever the dataset class and whatever
  \<^verbatim>\<open>train_model\<close> would do: the checks before the call already raise.  The parser error
  about InMemorySingleValueDataset is reached for no parsed namespace.
\<close>

theorem min_seq_length_raises_AttributeError:
  assumes "parsed_namespace args" "args ''min_seq_length'' = Some v" "v \<noteq> PyNone"
  shows "check_arguments args = Inl (AttributeError ''datset_class'')
       \<and> finetune_esm2_entrypoint train_model args = Inl (AttributeError ''datset_class'')
       \<and> (\<forall>args'. parsed_namespace args' \<longrightarrow>
            check_arguments args' \<noteq> Inl (ParserError
              ''Arguments --min-seq-length cannot be set when using InMemorySingleValueDataset.''))"
proof -
  have "check_arguments args = Inl (AttributeError ''datset_class'')"
    using datset_class_absent [OF assms(1)] assms(2,3)
    by (simp add: check_arguments_def bind_err_def getattr_def)
  then show ?thesis
    using first_parser_error_unreachable
    by (simp add: finetune_esm2_entrypoint_def bind_err_def)
qed

lemma parsed_update:
  assumes "parsed_namespace args" "args name \<noteq> None"
  shows "parsed_namespace (args(name \<mapsto> v))"
  using assms by (auto simp: parsed_namespace_def)

lemma parsed_default: "parsed_namespace default_namespace"
  by (simp add: parsed_namespace_def default_namespace_def dom_map_of_conv_image_fst
        image_image case_prod_beta)

lemma default_min_seq_length: "default_namespace ''min_seq_length'' = Some PyNone"
  by (simp add: default_namespace_def get_parser_def dest_def)

theorem min_seq_length_raises_AttributeError_witness:
  "parsed_namespace (default_namespace(''min_seq_length'' \<mapsto> PyInt 128))
   \<and> finetune_esm2_entrypoint (\<lambda>kwargs. Inr kwargs)
        (default_namespace(''min_seq_length'' \<mapsto> PyInt 128))
       = Inl (AttributeError ''datset_class'')
   \<and> check_arguments default_namespace = Inr ()"
proof -
  have p: "parsed_namespace (default_namespace(''min_seq_length'' \<mapsto> PyInt 128))"
    using parsed_default default_min_seq_length by (intro parsed_update) simp_all
  have v: "(default_namespace(''min_seq_length'' \<mapsto> PyInt 128)) ''min_seq_length''
             = Some (PyInt 128)" "PyInt 128 \<noteq> PyNone"
    by simp_all
  have d: "check_arguments default_namespace = Inr ()"
    by (simp add: check_arguments_def bind_err_def getattr_def default_namespace_def
          get_parser_def dest_def)
  note t = min_seq_length_raises_AttributeError [OF p v, of "\<lambda>kwargs. Inr kwargs"]
  from t have e: "finetune_esm2_entrypoint (\<lambda>kwargs. Inr kwargs)
        (default_namespace(''min_seq_length'' \<mapsto> PyInt 128))
       = Inl (AttributeError ''datset_class'')"
    by (rule conjunct1 [OF conjunct2])
  from p e d show ?thesis by (intro conjI)
qed

end
